theory Spec2Isabelle
  imports Main "HOL-Library.Word"
begin

section \<open>Solidity values, reverts and the call environment\<close>

text \<open>
  The three contracts of the repository (PortfolioManager, LitProtocolDelegate and
  CrossChainRebalancer) are embedded as pure functions on explicit contract states.
  A Solidity \<open>uint256\<close> is a 256-bit word, an \<open>address\<close> a 160-bit word; a
  \<open>mapping\<close> is a total function whose default value is zero, as in the EVM.
  The contracts are compiled with Solidity 0.8, whose arithmetic is checked: an overflow
  aborts the call with a panic. A failed \<open>require\<close> aborts it with its message.
  An aborted call is the value \<open>Inl e\<close>; the EVM then discards every change of the
  call, so the state after an aborted call is the state before it.
\<close>

type_synonym address = "160 word"
type_synonym uint256 = "256 word"
type_synonym bytes32 = "256 word"
type_synonym bytes = "8 word list"

datatype error =
    Revert string   \<comment> \<open>a failed \<open>require\<close> or a \<open>revert\<close>, with its message\<close>
  | Panic           \<comment> \<open>checked arithmetic overflowed\<close>
  | LibraryError    \<comment> \<open>the signature library rejected a malformed signature\<close>

record txenv =
  msg_sender :: address
  block_timestamp :: uint256
  block_number :: uint256

definition require :: "bool \<Rightarrow> string \<Rightarrow> (error + 'a) \<Rightarrow> (error + 'a)" where
  "require c msg k = (if c then k else Inl (Revert msg))"

definition bindE :: "(error + 'a) \<Rightarrow> ('a \<Rightarrow> error + 'b) \<Rightarrow> (error + 'b)" where
  "bindE r k = (case r of Inl e \<Rightarrow> Inl e | Inr x \<Rightarrow> k x)"

definition checked_add :: "uint256 \<Rightarrow> uint256 \<Rightarrow> error + uint256" where
  "checked_add a b = (if unat a + unat b < 2 ^ 256 then Inr (a + b) else Inl Panic)"

section \<open>PortfolioManager\<close>

record Asset =
  tokenAddress :: address
  chainId :: uint256
  targetPercentage :: uint256
  asset_isActive :: bool

record Portfolio =
  assets :: "Asset list"
  totalValue :: uint256
  lastRebalance :: uint256
  isActive :: bool

record DelegationPolicy =
  delegate :: address
  maxSlippage :: uint256
  maxRebalanceAmount :: uint256
  rebalanceThreshold :: uint256
  cooldownPeriod :: uint256
  policy_isActive :: bool

datatype pm_event =
    PortfolioCreated address "Asset list"
  | PortfolioUpdated address "Asset list"
  | AssetAdded address address uint256 uint256
  | AssetRemoved address address uint256
  | DelegationPolicySet address address uint256 uint256 uint256 uint256
  | DelegationRevoked address
  | RebalanceExecuted address address uint256 uint256
  | BalanceUpdated address address uint256
  | PmOwnershipTransferred address address

record pm_state =
  pm_owner :: address
  portfolios :: "address \<Rightarrow> Portfolio"
  delegationPolicies :: "address \<Rightarrow> DelegationPolicy"
  userBalances :: "address \<Rightarrow> address \<Rightarrow> uint256"
  pm_events :: "pm_event list"

text \<open>The state of a freshly deployed PortfolioManager: every mapping is zero.\<close>

definition pm_init :: "address \<Rightarrow> pm_state" where
  "pm_init deployer =
     \<lparr>pm_owner = deployer,
      portfolios = (\<lambda>_. \<lparr>assets = [], totalValue = 0, lastRebalance = 0, isActive = False\<rparr>),
      delegationPolicies = (\<lambda>_. \<lparr>delegate = 0, maxSlippage = 0, maxRebalanceAmount = 0,
         rebalanceThreshold = 0, cooldownPeriod = 0, policy_isActive = False\<rparr>),
      userBalances = (\<lambda>_ _. 0),
      pm_events = []\<rparr>"

text \<open>The modifiers \<open>onlyPortfolioOwner\<close>, \<open>validPercentage\<close> and \<open>portfolioExists\<close>.\<close>

definition onlyPortfolioOwner :: "txenv \<Rightarrow> pm_state \<Rightarrow> address \<Rightarrow> (error + 'a) \<Rightarrow> (error + 'a)" where
  "onlyPortfolioOwner env s user k =
     require (msg_sender env = user \<or> msg_sender env = pm_owner s) ''Not portfolio owner'' k"

definition validPercentage :: "uint256 \<Rightarrow> (error + 'a) \<Rightarrow> (error + 'a)" where
  "validPercentage percentage k = require (percentage \<le> 10000) ''Invalid percentage'' k"

definition portfolioExists :: "pm_state \<Rightarrow> address \<Rightarrow> (error + 'a) \<Rightarrow> (error + 'a)" where
  "portfolioExists s user k = require (isActive (portfolios s user)) ''Portfolio does not exist'' k"

text \<open>
  The validation loop that \<open>createPortfolio\<close> and \<open>updatePortfolio\<close> both run over the
  new asset list; the accumulator is \<open>totalPercentage\<close>.
\<close>

fun sumTargets :: "Asset list \<Rightarrow> uint256 \<Rightarrow> error + uint256" where
  "sumTargets [] totalPercentage = Inr totalPercentage"
| "sumTargets (a # rest) totalPercentage =
     require (tokenAddress a \<noteq> 0) ''Invalid token address''
    (require (targetPercentage a > 0) ''Target percentage must be > 0''
    (bindE (checked_add totalPercentage (targetPercentage a)) (sumTargets rest)))"

definition createPortfolio :: "txenv \<Rightarrow> pm_state \<Rightarrow> address \<Rightarrow> Asset list \<Rightarrow> error + pm_state" where
  "createPortfolio env s user new_assets =
     onlyPortfolioOwner env s user
    (require (\<not> isActive (portfolios s user)) ''Portfolio already exists''
    (require (length new_assets > 0) ''Portfolio must have at least one asset''
    (bindE (sumTargets new_assets 0) (\<lambda>totalPercentage.
     require (totalPercentage = 10000) ''Total percentage must equal 100%''
    (Inr (s\<lparr>portfolios := (portfolios s)(user :=
              \<lparr>assets = new_assets, totalValue = 0, lastRebalance = 0, isActive = True\<rparr>),
            pm_events := pm_events s @ [PortfolioCreated user new_assets]\<rparr>))))))"

definition updatePortfolio :: "txenv \<Rightarrow> pm_state \<Rightarrow> address \<Rightarrow> Asset list \<Rightarrow> error + pm_state" where
  "updatePortfolio env s user new_assets =
     onlyPortfolioOwner env s user
    (portfolioExists s user
    (require (length new_assets > 0) ''Portfolio must have at least one asset''
    (bindE (sumTargets new_assets 0) (\<lambda>totalPercentage.
     require (totalPercentage = 10000) ''Total percentage must equal 100%''
    (Inr (s\<lparr>portfolios := (portfolios s)(user := (portfolios s user)\<lparr>assets := new_assets\<rparr>),
            pm_events := pm_events s @ [PortfolioUpdated user new_assets]\<rparr>))))))"

text \<open>The duplicate check of \<open>addAsset\<close>: a loop of \<open>require\<close>s over the stored assets.\<close>

fun assetAbsent :: "Asset list \<Rightarrow> address \<Rightarrow> uint256 \<Rightarrow> bool" where
  "assetAbsent [] token chain = True"
| "assetAbsent (a # rest) token chain =
     ((tokenAddress a \<noteq> token \<or> chainId a \<noteq> chain) \<and> assetAbsent rest token chain)"

definition addAsset :: "txenv \<Rightarrow> pm_state \<Rightarrow> address \<Rightarrow> address \<Rightarrow> uint256 \<Rightarrow> uint256 \<Rightarrow> error + pm_state" where
  "addAsset env s user token chain percentage =
     onlyPortfolioOwner env s user
    (portfolioExists s user
    (validPercentage percentage
    (require (assetAbsent (assets (portfolios s user)) token chain) ''Asset already exists''
    (Inr (s\<lparr>portfolios := (portfolios s)(user := (portfolios s user)
              \<lparr>assets := assets (portfolios s user) @
                 [\<lparr>tokenAddress = token, chainId = chain, targetPercentage = percentage,
                   asset_isActive = True\<rparr>]\<rparr>),
            pm_events := pm_events s @ [AssetAdded user token chain percentage]\<rparr>)))))"

text \<open>
  \<open>removeAsset\<close> looks for the first stored asset with the given token and chain,
  overwrites it with the last one and pops the array.
\<close>

fun assetIndex :: "Asset list \<Rightarrow> address \<Rightarrow> uint256 \<Rightarrow> nat option" where
  "assetIndex [] token chain = None"
| "assetIndex (a # rest) token chain =
     (if tokenAddress a = token \<and> chainId a = chain then Some 0
      else map_option Suc (assetIndex rest token chain))"

definition swapRemove :: "'a list \<Rightarrow> nat \<Rightarrow> 'a list" where
  "swapRemove xs i = butlast (xs[i := last xs])"

definition removeAsset :: "txenv \<Rightarrow> pm_state \<Rightarrow> address \<Rightarrow> address \<Rightarrow> uint256 \<Rightarrow> error + pm_state" where
  "removeAsset env s user token chain =
     onlyPortfolioOwner env s user
    (portfolioExists s user
    (case assetIndex (assets (portfolios s user)) token chain of
       Some i \<Rightarrow>
         Inr (s\<lparr>portfolios := (portfolios s)(user := (portfolios s user)
                  \<lparr>assets := swapRemove (assets (portfolios s user)) i\<rparr>),
               pm_events := pm_events s @ [AssetRemoved user token chain]\<rparr>)
     | None \<Rightarrow> Inl (Revert ''Asset not found'')))"

definition setDelegationPolicy ::
  "txenv \<Rightarrow> pm_state \<Rightarrow> address \<Rightarrow> address \<Rightarrow> uint256 \<Rightarrow> uint256 \<Rightarrow> uint256 \<Rightarrow> uint256 \<Rightarrow> error + pm_state" where
  "setDelegationPolicy env s user dlg slippage amount threshold cooldown =
     onlyPortfolioOwner env s user
    (portfolioExists s user
    (require (dlg \<noteq> 0) ''Invalid delegate address''
    (require (slippage \<le> 1000) ''Max slippage too high''
    (require (threshold \<le> 1000) ''Rebalance threshold too high''
    (require (cooldown \<ge> 3600) ''Cooldown period too short''
    (Inr (s\<lparr>delegationPolicies := (delegationPolicies s)(user :=
              \<lparr>delegate = dlg, maxSlippage = slippage, maxRebalanceAmount = amount,
               rebalanceThreshold = threshold, cooldownPeriod = cooldown, policy_isActive = True\<rparr>),
            pm_events := pm_events s @
              [DelegationPolicySet user dlg slippage amount threshold cooldown]\<rparr>)))))))"

definition revokeDelegation :: "txenv \<Rightarrow> pm_state \<Rightarrow> address \<Rightarrow> error + pm_state" where
  "revokeDelegation env s user =
     onlyPortfolioOwner env s user
    (Inr (s\<lparr>delegationPolicies := (delegationPolicies s)(user :=
              (delegationPolicies s user)\<lparr>policy_isActive := False\<rparr>),
            pm_events := pm_events s @ [DelegationRevoked user]\<rparr>))"

definition updateBalance :: "txenv \<Rightarrow> pm_state \<Rightarrow> address \<Rightarrow> address \<Rightarrow> uint256 \<Rightarrow> error + pm_state" where
  "updateBalance env s user token newBalance =
     require (policy_isActive (delegationPolicies s user)) ''Delegation not active''
    (require (msg_sender env = delegate (delegationPolicies s user)) ''Not authorized delegate''
    (Inr (s\<lparr>userBalances := (userBalances s)(user := (userBalances s user)(token := newBalance)),
            pm_events := pm_events s @ [BalanceUpdated user token newBalance]\<rparr>)))"

definition executeRebalance :: "txenv \<Rightarrow> pm_state \<Rightarrow> address \<Rightarrow> uint256 \<Rightarrow> error + pm_state" where
  "executeRebalance env s user newTotal =
     require (policy_isActive (delegationPolicies s user)) ''Delegation not active''
    (require (msg_sender env = delegate (delegationPolicies s user)) ''Not authorized delegate''
    (bindE (checked_add (lastRebalance (portfolios s user))
              (cooldownPeriod (delegationPolicies s user))) (\<lambda>ready.
     require (block_timestamp env \<ge> ready) ''Cooldown period not met''
    (Inr (s\<lparr>portfolios := (portfolios s)(user := (portfolios s user)
              \<lparr>totalValue := newTotal, lastRebalance := block_timestamp env\<rparr>),
            pm_events := pm_events s @
              [RebalanceExecuted user (msg_sender env) newTotal (block_timestamp env)]\<rparr>)))))"

text \<open>
  The loop of \<open>needsRebalancing\<close>, run after the two arrays were checked to have the
  same length: it returns at the first index whose drift exceeds the threshold.
\<close>

fun driftExceeds :: "uint256 list \<Rightarrow> Asset list \<Rightarrow> uint256 \<Rightarrow> bool" where
  "driftExceeds (c # cs) (a # rest) threshold =
     (let drift = (if c > targetPercentage a then c - targetPercentage a
                   else targetPercentage a - c)
      in if drift > threshold then True else driftExceeds cs rest threshold)"
| "driftExceeds cs rest threshold = False"

definition needsRebalancing :: "txenv \<Rightarrow> pm_state \<Rightarrow> address \<Rightarrow> uint256 list \<Rightarrow> error + bool" where
  "needsRebalancing env s user currentAllocations =
     (if \<not> policy_isActive (delegationPolicies s user) then Inr False
      else bindE (checked_add (lastRebalance (portfolios s user))
                    (cooldownPeriod (delegationPolicies s user))) (\<lambda>ready.
        if block_timestamp env < ready then Inr False
        else require (length currentAllocations = length (assets (portfolios s user)))
               ''Invalid allocation length''
            (Inr (driftExceeds currentAllocations (assets (portfolios s user))
                    (rebalanceThreshold (delegationPolicies s user))))))"

text \<open>
  The two state-changing functions that every contract inherits from OpenZeppelin's
  \<open>Ownable\<close>; they are the only way \<open>owner()\<close> changes.
\<close>

definition pm_transferOwnership :: "txenv \<Rightarrow> pm_state \<Rightarrow> address \<Rightarrow> error + pm_state" where
  "pm_transferOwnership env s newOwner =
     require (msg_sender env = pm_owner s) ''Ownable: caller is not the owner''
    (require (newOwner \<noteq> 0) ''Ownable: new owner is the zero address''
    (Inr (s\<lparr>pm_owner := newOwner,
            pm_events := pm_events s @ [PmOwnershipTransferred (pm_owner s) newOwner]\<rparr>)))"

definition pm_renounceOwnership :: "txenv \<Rightarrow> pm_state \<Rightarrow> error + pm_state" where
  "pm_renounceOwnership env s =
     require (msg_sender env = pm_owner s) ''Ownable: caller is not the owner''
    (Inr (s\<lparr>pm_owner := 0,
            pm_events := pm_events s @ [PmOwnershipTransferred (pm_owner s) 0]\<rparr>))"

text \<open>
  Every state-changing entry point of the contract as one call, a transaction that keeps
  the old state when the call aborts, and a sequence of transactions.
\<close>

datatype pm_call =
    CreatePortfolio address "Asset list"
  | UpdatePortfolio address "Asset list"
  | AddAsset address address uint256 uint256
  | RemoveAsset address address uint256
  | SetDelegationPolicy address address uint256 uint256 uint256 uint256
  | RevokeDelegation address
  | UpdateBalance address address uint256
  | ExecuteRebalance address uint256
  | PmTransferOwnership address
  | PmRenounceOwnership

fun pm_exec :: "txenv \<Rightarrow> pm_state \<Rightarrow> pm_call \<Rightarrow> error + pm_state" where
  "pm_exec env s (CreatePortfolio u xs) = createPortfolio env s u xs"
| "pm_exec env s (UpdatePortfolio u xs) = updatePortfolio env s u xs"
| "pm_exec env s (AddAsset u t c p) = addAsset env s u t c p"
| "pm_exec env s (RemoveAsset u t c) = removeAsset env s u t c"
| "pm_exec env s (SetDelegationPolicy u d sl am th cd) = setDelegationPolicy env s u d sl am th cd"
| "pm_exec env s (RevokeDelegation u) = revokeDelegation env s u"
| "pm_exec env s (UpdateBalance u t b) = updateBalance env s u t b"
| "pm_exec env s (ExecuteRebalance u v) = executeRebalance env s u v"
| "pm_exec env s (PmTransferOwnership a) = pm_transferOwnership env s a"
| "pm_exec env s PmRenounceOwnership = pm_renounceOwnership env s"

definition pm_transact :: "pm_state \<Rightarrow> txenv \<times> pm_call \<Rightarrow> pm_state" where
  "pm_transact s tx = (case pm_exec (fst tx) s (snd tx) of Inl e \<Rightarrow> s | Inr s' \<Rightarrow> s')"

definition pm_run :: "pm_state \<Rightarrow> (txenv \<times> pm_call) list \<Rightarrow> pm_state" where
  "pm_run s txs = foldl pm_transact s txs"

section \<open>LitProtocolDelegate\<close>

text \<open>
  The contract hashes with the built-in \<open>keccak256\<close> and recovers signers with
  OpenZeppelin's \<open>MessageHashUtils\<close> and \<open>ECDSA\<close>, none of which is code of the
  repository. They are parameters of the model. \<open>ECDSA.recover\<close> reverts on a malformed
  signature, which is the result \<open>None\<close> here.
\<close>

record crypto =
  keccak256 :: "bytes \<Rightarrow> bytes32"
  toEthSignedMessageHash :: "bytes32 \<Rightarrow> bytes32"
  recover :: "bytes32 \<Rightarrow> bytes \<Rightarrow> address option"

text \<open>
  \<open>abi.encodePacked\<close> writes an address as 20 bytes and a \<open>uint256\<close> or
  \<open>bytes32\<close> as 32 bytes, most significant byte first, and a \<open>bytes\<close> value as it is.
\<close>

definition be_bytes :: "nat \<Rightarrow> 'a::len word \<Rightarrow> bytes" where
  "be_bytes n w = map (\<lambda>i. ucast (drop_bit (8 * (n - 1 - i)) w)) [0..<n]"

record DelegationSession =
  ds_user :: address
  ds_delegate :: address
  ds_nonce :: uint256
  expiry :: uint256
  policyHash :: bytes32
  ds_isActive :: bool
  maxOperations :: uint256
  operationsUsed :: uint256

record SignedOperation =
  op_user :: address
  op_delegate :: address
  op_nonce :: uint256
  operationType :: uint256
  op_data :: bytes
  op_timestamp :: uint256
  signature :: bytes

datatype ld_event =
    DelegationSessionCreated bytes32 address address uint256 uint256
  | DelegationSessionRevoked bytes32 address
  | OperationExecuted bytes32 address address uint256 bytes32
  | SignatureVerified bytes32 address bool
  | LdOwnershipTransferred address address

record ld_state =
  ld_owner :: address
  delegationSessions :: "bytes32 \<Rightarrow> DelegationSession"
  userNonces :: "address \<Rightarrow> uint256"
  usedSignatures :: "bytes32 \<Rightarrow> bool"
  ld_events :: "ld_event list"

definition ld_init :: "address \<Rightarrow> ld_state" where
  "ld_init deployer =
     \<lparr>ld_owner = deployer,
      delegationSessions = (\<lambda>_. \<lparr>ds_user = 0, ds_delegate = 0, ds_nonce = 0, expiry = 0,
         policyHash = 0, ds_isActive = False, maxOperations = 0, operationsUsed = 0\<rparr>),
      userNonces = (\<lambda>_. 0),
      usedSignatures = (\<lambda>_. False),
      ld_events = []\<rparr>"

text \<open>The modifiers \<open>validSession\<close> and \<open>onlyDelegate\<close>.\<close>

definition validSession :: "txenv \<Rightarrow> ld_state \<Rightarrow> bytes32 \<Rightarrow> (error + 'a) \<Rightarrow> (error + 'a)" where
  "validSession env s sessionId k =
     require (ds_isActive (delegationSessions s sessionId)) ''Session not active''
    (require (block_timestamp env \<le> expiry (delegationSessions s sessionId)) ''Session expired''
    (require (operationsUsed (delegationSessions s sessionId) <
              maxOperations (delegationSessions s sessionId)) ''Max operations exceeded'' k))"

definition onlyDelegate :: "txenv \<Rightarrow> ld_state \<Rightarrow> bytes32 \<Rightarrow> (error + 'a) \<Rightarrow> (error + 'a)" where
  "onlyDelegate env s sessionId k =
     require (msg_sender env = ds_delegate (delegationSessions s sessionId))
       ''Not authorized delegate'' k"

definition sessionIdOf :: "crypto \<Rightarrow> address \<Rightarrow> address \<Rightarrow> uint256 \<Rightarrow> uint256 \<Rightarrow> bytes32" where
  "sessionIdOf c user dlg nonce now =
     keccak256 c (be_bytes 20 user @ be_bytes 20 dlg @ be_bytes 32 nonce @ be_bytes 32 now)"

definition createDelegationSession ::
  "crypto \<Rightarrow> txenv \<Rightarrow> ld_state \<Rightarrow> address \<Rightarrow> address \<Rightarrow> uint256 \<Rightarrow> bytes32 \<Rightarrow> uint256
     \<Rightarrow> error + (bytes32 \<times> ld_state)" where
  "createDelegationSession c env s user dlg exp pHash maxOps =
     require (user \<noteq> 0) ''Invalid user''
    (require (dlg \<noteq> 0) ''Invalid delegate''
    (require (exp > block_timestamp env) ''Invalid expiry''
    (require (maxOps > 0) ''Invalid max operations''
    (bindE (checked_add (userNonces s user) 1) (\<lambda>nextNonce.
     let nonce = userNonces s user;
         sessionId = sessionIdOf c user dlg nonce (block_timestamp env)
     in Inr (sessionId,
          s\<lparr>userNonces := (userNonces s)(user := nextNonce),
            delegationSessions := (delegationSessions s)(sessionId :=
              \<lparr>ds_user = user, ds_delegate = dlg, ds_nonce = nonce, expiry = exp,
               policyHash = pHash, ds_isActive = True, maxOperations = maxOps,
               operationsUsed = 0\<rparr>),
            ld_events := ld_events s @
              [DelegationSessionCreated sessionId user dlg nonce exp]\<rparr>))))))"

definition revokeDelegationSession :: "txenv \<Rightarrow> ld_state \<Rightarrow> bytes32 \<Rightarrow> error + ld_state" where
  "revokeDelegationSession env s sessionId =
     require (ds_user (delegationSessions s sessionId) = msg_sender env \<or>
              msg_sender env = ld_owner s) ''Not authorized''
    (require (ds_isActive (delegationSessions s sessionId)) ''Session not active''
    (Inr (s\<lparr>delegationSessions := (delegationSessions s)(sessionId :=
              (delegationSessions s sessionId)\<lparr>ds_isActive := False\<rparr>),
            ld_events := ld_events s @
              [DelegationSessionRevoked sessionId (ds_user (delegationSessions s sessionId))]\<rparr>)))"

text \<open>
  The digest that \<open>verifySignedOperation\<close> recomputes: the packed encoding of the
  operation's user, delegate, nonce, type, data and timestamp and of the session's policy
  hash, hashed and wrapped as a signed Ethereum message.
\<close>

definition messageHash :: "crypto \<Rightarrow> SignedOperation \<Rightarrow> bytes32 \<Rightarrow> bytes32" where
  "messageHash c operation pHash =
     keccak256 c (be_bytes 20 (op_user operation) @ be_bytes 20 (op_delegate operation) @
       be_bytes 32 (op_nonce operation) @ be_bytes 32 (operationType operation) @
       op_data operation @ be_bytes 32 (op_timestamp operation) @ be_bytes 32 pHash)"

definition verifySignedOperation ::
  "crypto \<Rightarrow> txenv \<Rightarrow> ld_state \<Rightarrow> bytes32 \<Rightarrow> SignedOperation \<Rightarrow> error + (bool \<times> ld_state)" where
  "verifySignedOperation c env s sessionId operation =
     validSession env s sessionId
    (let session = delegationSessions s sessionId in
     require (op_user operation = ds_user session) ''Invalid user''
    (require (op_delegate operation = ds_delegate session) ''Invalid delegate''
    (require (op_nonce operation = ds_nonce session) ''Invalid nonce''
    (let ethSignedMessageHash =
           toEthSignedMessageHash c (messageHash c operation (policyHash session))
     in case recover c ethSignedMessageHash (signature operation) of
          None \<Rightarrow> Inl LibraryError
        | Some signer \<Rightarrow>
            let valid = (signer = ds_user session);
                signatureHash = keccak256 c (signature operation)
            in require (\<not> usedSignatures s signatureHash) ''Signature already used''
              (Inr (valid,
                 s\<lparr>usedSignatures := (usedSignatures s)(signatureHash := True),
                   ld_events := ld_events s @
                     [SignatureVerified sessionId (ds_user session) valid]\<rparr>))))))"

text \<open>
  \<open>executeOperation\<close> and \<open>batchExecuteOperations\<close> are \<open>nonReentrant\<close>. The
  contract calls no other contract, so no call can re-enter and the guard never fires; it
  is left out of the model. Both functions call \<open>verifySignedOperation\<close>, which runs
  its \<open>validSession\<close> modifier again; since it never reads \<open>msg.sender\<close>, it does
  the same whether it is entered from inside the contract or from outside.
\<close>

definition executeOperation ::
  "crypto \<Rightarrow> txenv \<Rightarrow> ld_state \<Rightarrow> bytes32 \<Rightarrow> SignedOperation \<Rightarrow> bytes32 \<Rightarrow> error + ld_state" where
  "executeOperation c env s sessionId operation operationHash =
     onlyDelegate env s sessionId
    (bindE (verifySignedOperation c env s sessionId operation) (\<lambda>(valid, s1).
     require valid ''Invalid signature''
    (bindE (checked_add (operationsUsed (delegationSessions s1 sessionId)) 1) (\<lambda>used.
     Inr (s1\<lparr>delegationSessions := (delegationSessions s1)(sessionId :=
               (delegationSessions s1 sessionId)\<lparr>operationsUsed := used\<rparr>),
             ld_events := ld_events s1 @
               [OperationExecuted sessionId (ds_user (delegationSessions s1 sessionId))
                  (ds_delegate (delegationSessions s1 sessionId))
                  (operationType operation) operationHash]\<rparr>)))))"

text \<open>The loop of \<open>batchExecuteOperations\<close> over two arrays of the same length.\<close>

fun batchLoop ::
  "crypto \<Rightarrow> txenv \<Rightarrow> ld_state \<Rightarrow> bytes32 \<Rightarrow> SignedOperation list \<Rightarrow> bytes32 list \<Rightarrow> error + ld_state" where
  "batchLoop c env s sessionId (operation # ops) (operationHash # hashes) =
     bindE (verifySignedOperation c env s sessionId operation) (\<lambda>(valid, s1).
     require valid ''Invalid signature''
    (batchLoop c env
       (s1\<lparr>ld_events := ld_events s1 @
             [OperationExecuted sessionId (ds_user (delegationSessions s1 sessionId))
                (ds_delegate (delegationSessions s1 sessionId))
                (operationType operation) operationHash]\<rparr>)
       sessionId ops hashes))"
| "batchLoop c env s sessionId ops hashes = Inr s"

definition batchExecuteOperations ::
  "crypto \<Rightarrow> txenv \<Rightarrow> ld_state \<Rightarrow> bytes32 \<Rightarrow> SignedOperation list \<Rightarrow> bytes32 list \<Rightarrow> error + ld_state" where
  "batchExecuteOperations c env s sessionId ops hashes =
     onlyDelegate env s sessionId
    (require (length ops = length hashes) ''Invalid input length''
    (require (length ops > 0) ''No operations provided''
    (bindE (checked_add (operationsUsed (delegationSessions s sessionId)) (of_nat (length ops)))
       (\<lambda>wanted.
     require (wanted \<le> maxOperations (delegationSessions s sessionId)) ''Exceeds max operations''
    (bindE (batchLoop c env s sessionId ops hashes) (\<lambda>s1.
     bindE (checked_add (operationsUsed (delegationSessions s1 sessionId)) (of_nat (length ops)))
       (\<lambda>used.
     Inr (s1\<lparr>delegationSessions := (delegationSessions s1)(sessionId :=
               (delegationSessions s1 sessionId)\<lparr>operationsUsed := used\<rparr>)\<rparr>))))))))"

definition isSessionValid :: "txenv \<Rightarrow> ld_state \<Rightarrow> bytes32 \<Rightarrow> bool" where
  "isSessionValid env s sessionId =
     (ds_isActive (delegationSessions s sessionId) \<and>
      block_timestamp env \<le> expiry (delegationSessions s sessionId) \<and>
      operationsUsed (delegationSessions s sessionId) <
        maxOperations (delegationSessions s sessionId))"

definition emergencyRevokeUserSessions :: "txenv \<Rightarrow> ld_state \<Rightarrow> address \<Rightarrow> error + ld_state" where
  "emergencyRevokeUserSessions env s user =
     require (msg_sender env = ld_owner s) ''Ownable: caller is not the owner''
    (Inr (s\<lparr>ld_events := ld_events s @ [DelegationSessionRevoked 0 user]\<rparr>))"

definition ld_transferOwnership :: "txenv \<Rightarrow> ld_state \<Rightarrow> address \<Rightarrow> error + ld_state" where
  "ld_transferOwnership env s newOwner =
     require (msg_sender env = ld_owner s) ''Ownable: caller is not the owner''
    (require (newOwner \<noteq> 0) ''Ownable: new owner is the zero address''
    (Inr (s\<lparr>ld_owner := newOwner,
            ld_events := ld_events s @ [LdOwnershipTransferred (ld_owner s) newOwner]\<rparr>)))"

definition ld_renounceOwnership :: "txenv \<Rightarrow> ld_state \<Rightarrow> error + ld_state" where
  "ld_renounceOwnership env s =
     require (msg_sender env = ld_owner s) ''Ownable: caller is not the owner''
    (Inr (s\<lparr>ld_owner := 0,
            ld_events := ld_events s @ [LdOwnershipTransferred (ld_owner s) 0]\<rparr>))"

text \<open>Every state-changing entry point as one call, and sequences of transactions.\<close>

datatype ld_call =
    CreateDelegationSession address address uint256 bytes32 uint256
  | RevokeDelegationSession bytes32
  | VerifySignedOperation bytes32 SignedOperation
  | ExecuteOperation bytes32 SignedOperation bytes32
  | BatchExecuteOperations bytes32 "SignedOperation list" "bytes32 list"
  | EmergencyRevokeUserSessions address
  | LdTransferOwnership address
  | LdRenounceOwnership

fun ld_exec :: "crypto \<Rightarrow> txenv \<Rightarrow> ld_state \<Rightarrow> ld_call \<Rightarrow> error + ld_state" where
  "ld_exec c env s (CreateDelegationSession u d e p m) =
     map_sum id snd (createDelegationSession c env s u d e p m)"
| "ld_exec c env s (RevokeDelegationSession i) = revokeDelegationSession env s i"
| "ld_exec c env s (VerifySignedOperation i operation) =
     map_sum id snd (verifySignedOperation c env s i operation)"
| "ld_exec c env s (ExecuteOperation i operation h) = executeOperation c env s i operation h"
| "ld_exec c env s (BatchExecuteOperations i ops hs) = batchExecuteOperations c env s i ops hs"
| "ld_exec c env s (EmergencyRevokeUserSessions u) = emergencyRevokeUserSessions env s u"
| "ld_exec c env s (LdTransferOwnership a) = ld_transferOwnership env s a"
| "ld_exec c env s LdRenounceOwnership = ld_renounceOwnership env s"

definition ld_transact :: "crypto \<Rightarrow> ld_state \<Rightarrow> txenv \<times> ld_call \<Rightarrow> ld_state" where
  "ld_transact c s tx = (case ld_exec c (fst tx) s (snd tx) of Inl e \<Rightarrow> s | Inr s' \<Rightarrow> s')"

definition ld_run :: "crypto \<Rightarrow> ld_state \<Rightarrow> (txenv \<times> ld_call) list \<Rightarrow> ld_state" where
  "ld_run c s txs = foldl (ld_transact c) s txs"

section \<open>CrossChainRebalancer\<close>

record SwapParams =
  tokenIn :: address
  tokenOut :: address
  amountIn :: uint256
  minAmountOut :: uint256
  swap_chainId :: uint256
  routeId :: bytes32

record BridgeParams =
  bridge_token :: address
  bridge_amount :: uint256
  fromChainId :: uint256
  toChainId :: uint256
  bridgeId :: bytes32

record RebalanceAction =
  action_user :: address
  swaps :: "SwapParams list"
  bridges :: "BridgeParams list"
  action_totalValue :: uint256
  action_timestamp :: uint256
  executed :: bool

datatype rb_event =
    RebalanceActionCreated bytes32 address uint256
  | SwapExecuted bytes32 address address uint256 uint256 uint256
  | BridgeExecuted bytes32 address uint256 uint256 uint256
  | RebalanceActionExecuted bytes32 address
  | AgentAuthorized address bool
  | TokenPriceUpdated uint256 address uint256
  | RbOwnershipTransferred address address

record rb_state =
  rb_owner :: address
  rebalanceActions :: "bytes32 \<Rightarrow> RebalanceAction"
  authorizedAgents :: "address \<Rightarrow> bool"
  chainTokenPrices :: "uint256 \<Rightarrow> address \<Rightarrow> uint256"
  rb_events :: "rb_event list"

text \<open>
  The rebalancer calls the PortfolioManager it was constructed with, so its functions run
  on both contract states. \<open>rb_address\<close> is the rebalancer's own address: it is the
  \<open>msg.sender\<close> that the PortfolioManager sees in those calls.
\<close>

record chain =
  portfolioManager :: pm_state
  rebalancer :: rb_state
  rb_address :: address

definition rb_init :: "address \<Rightarrow> rb_state" where
  "rb_init deployer =
     \<lparr>rb_owner = deployer,
      rebalanceActions = (\<lambda>_. \<lparr>action_user = 0, swaps = [], bridges = [],
         action_totalValue = 0, action_timestamp = 0, executed = False\<rparr>),
      authorizedAgents = (\<lambda>_. False),
      chainTokenPrices = (\<lambda>_ _. 0),
      rb_events = []\<rparr>"

definition chain_init :: "address \<Rightarrow> address \<Rightarrow> chain" where
  "chain_init deployer self =
     \<lparr>portfolioManager = pm_init deployer, rebalancer = rb_init deployer, rb_address = self\<rparr>"

text \<open>The modifiers \<open>onlyAuthorizedAgent\<close>, \<open>validAction\<close> and \<open>onlyOwner\<close>.\<close>

definition onlyAuthorizedAgent :: "txenv \<Rightarrow> chain \<Rightarrow> (error + 'a) \<Rightarrow> (error + 'a)" where
  "onlyAuthorizedAgent env w k =
     require (authorizedAgents (rebalancer w) (msg_sender env)) ''Not authorized agent'' k"

definition validAction :: "chain \<Rightarrow> bytes32 \<Rightarrow> (error + 'a) \<Rightarrow> (error + 'a)" where
  "validAction w actionId k =
     require (action_user (rebalanceActions (rebalancer w) actionId) \<noteq> 0) ''Invalid action''
    (require (\<not> executed (rebalanceActions (rebalancer w) actionId)) ''Action already executed'' k)"

definition rb_onlyOwner :: "txenv \<Rightarrow> chain \<Rightarrow> (error + 'a) \<Rightarrow> (error + 'a)" where
  "rb_onlyOwner env w k =
     require (msg_sender env = rb_owner (rebalancer w)) ''Ownable: caller is not the owner'' k"

definition setAuthorizedAgent :: "txenv \<Rightarrow> chain \<Rightarrow> address \<Rightarrow> bool \<Rightarrow> error + chain" where
  "setAuthorizedAgent env w agent authorized =
     rb_onlyOwner env w
    (Inr (w\<lparr>rebalancer := (rebalancer w)
            \<lparr>authorizedAgents := (authorizedAgents (rebalancer w))(agent := authorized),
             rb_events := rb_events (rebalancer w) @ [AgentAuthorized agent authorized]\<rparr>\<rparr>))"

definition updateTokenPrice :: "txenv \<Rightarrow> chain \<Rightarrow> uint256 \<Rightarrow> address \<Rightarrow> uint256 \<Rightarrow> error + chain" where
  "updateTokenPrice env w chain token price =
     rb_onlyOwner env w
    (Inr (w\<lparr>rebalancer := (rebalancer w)
            \<lparr>chainTokenPrices := (chainTokenPrices (rebalancer w))
               (chain := (chainTokenPrices (rebalancer w) chain)(token := price)),
             rb_events := rb_events (rebalancer w) @ [TokenPriceUpdated chain token price]\<rparr>\<rparr>))"

text \<open>
  The action id: the hash of the packed user, block timestamp, block number and the two
  array lengths.
\<close>

definition actionIdOf :: "crypto \<Rightarrow> txenv \<Rightarrow> address \<Rightarrow> nat \<Rightarrow> nat \<Rightarrow> bytes32" where
  "actionIdOf c env user nswaps nbridges =
     keccak256 c (be_bytes 20 user @ be_bytes 32 (block_timestamp env) @
       be_bytes 32 (block_number env) @ be_bytes 32 (of_nat nswaps :: uint256) @
       be_bytes 32 (of_nat nbridges :: uint256))"

definition createRebalanceAction ::
  "crypto \<Rightarrow> txenv \<Rightarrow> chain \<Rightarrow> address \<Rightarrow> SwapParams list \<Rightarrow> BridgeParams list \<Rightarrow> uint256
     \<Rightarrow> error + (bytes32 \<times> chain)" where
  "createRebalanceAction c env w user new_swaps new_bridges total_value =
     onlyAuthorizedAgent env w
    (require (user \<noteq> 0) ''Invalid user''
    (require (total_value > 0) ''Invalid total value''
    (let actionId = actionIdOf c env user (length new_swaps) (length new_bridges)
     in Inr (actionId,
          w\<lparr>rebalancer := (rebalancer w)
             \<lparr>rebalanceActions := (rebalanceActions (rebalancer w))(actionId :=
                \<lparr>action_user = user, swaps = new_swaps, bridges = new_bridges,
                 action_totalValue = total_value, action_timestamp = block_timestamp env,
                 executed = False\<rparr>),
              rb_events := rb_events (rebalancer w) @
                [RebalanceActionCreated actionId user total_value]\<rparr>\<rparr>))))"

text \<open>
  A call of the rebalancer into the PortfolioManager: the callee runs in the same block
  with the rebalancer as \<open>msg.sender\<close>, and its abort aborts the caller.
\<close>

definition callPortfolioManager ::
  "txenv \<Rightarrow> chain \<Rightarrow> (txenv \<Rightarrow> pm_state \<Rightarrow> error + pm_state) \<Rightarrow> error + chain" where
  "callPortfolioManager env w f =
     bindE (f (env\<lparr>msg_sender := rb_address w\<rparr>) (portfolioManager w))
       (\<lambda>pm'. Inr (w\<lparr>portfolioManager := pm'\<rparr>))"

definition executeSwap :: "txenv \<Rightarrow> chain \<Rightarrow> bytes32 \<Rightarrow> uint256 \<Rightarrow> uint256 \<Rightarrow> error + chain" where
  "executeSwap env w actionId swapIndex actualAmountOut =
     onlyAuthorizedAgent env w
    (validAction w actionId
    (let action = rebalanceActions (rebalancer w) actionId in
     require (unat swapIndex < length (swaps action)) ''Invalid swap index''
    (let swap = swaps action ! unat swapIndex in
     require (actualAmountOut \<ge> minAmountOut swap) ''Slippage too high''
    (bindE (callPortfolioManager env w
              (\<lambda>e p. updateBalance e p (action_user action) (tokenIn swap) 0)) (\<lambda>w1.
     bindE (callPortfolioManager env w1
              (\<lambda>e p. updateBalance e p (action_user action) (tokenOut swap) actualAmountOut)) (\<lambda>w2.
     Inr (w2\<lparr>rebalancer := (rebalancer w2)
            \<lparr>rb_events := rb_events (rebalancer w2) @
               [SwapExecuted actionId (tokenIn swap) (tokenOut swap) (amountIn swap)
                  actualAmountOut (swap_chainId swap)]\<rparr>\<rparr>)))))))"

definition executeBridge :: "txenv \<Rightarrow> chain \<Rightarrow> bytes32 \<Rightarrow> uint256 \<Rightarrow> uint256 \<Rightarrow> error + chain" where
  "executeBridge env w actionId bridgeIndex actualAmount =
     onlyAuthorizedAgent env w
    (validAction w actionId
    (let action = rebalanceActions (rebalancer w) actionId in
     require (unat bridgeIndex < length (bridges action)) ''Invalid bridge index''
    (let bridge = bridges action ! unat bridgeIndex in
     require (actualAmount > 0) ''Invalid bridge amount''
    (bindE (callPortfolioManager env w
              (\<lambda>e p. updateBalance e p (action_user action) (bridge_token bridge) actualAmount)) (\<lambda>w1.
     Inr (w1\<lparr>rebalancer := (rebalancer w1)
            \<lparr>rb_events := rb_events (rebalancer w1) @
               [BridgeExecuted actionId (bridge_token bridge) actualAmount
                  (fromChainId bridge) (toChainId bridge)]\<rparr>\<rparr>))))))"

definition completeRebalanceAction :: "txenv \<Rightarrow> chain \<Rightarrow> bytes32 \<Rightarrow> error + chain" where
  "completeRebalanceAction env w actionId =
     onlyAuthorizedAgent env w
    (validAction w actionId
    (let action = rebalanceActions (rebalancer w) actionId;
         w1 = w\<lparr>rebalancer := (rebalancer w)
                \<lparr>rebalanceActions := (rebalanceActions (rebalancer w))(actionId :=
                   action\<lparr>executed := True\<rparr>)\<rparr>\<rparr>
     in bindE (callPortfolioManager env w1
                 (\<lambda>e p. executeRebalance e p (action_user action) (action_totalValue action)))
          (\<lambda>w2.
     Inr (w2\<lparr>rebalancer := (rebalancer w2)
            \<lparr>rb_events := rb_events (rebalancer w2) @
               [RebalanceActionExecuted actionId (action_user action)]\<rparr>\<rparr>))))"

definition emergencyPause :: "txenv \<Rightarrow> chain \<Rightarrow> bytes32 \<Rightarrow> error + chain" where
  "emergencyPause env w actionId =
     rb_onlyOwner env w
    (require (action_user (rebalanceActions (rebalancer w) actionId) \<noteq> 0) ''Invalid action''
    (Inr (w\<lparr>rebalancer := (rebalancer w)
            \<lparr>rebalanceActions := (rebalanceActions (rebalancer w))(actionId :=
               (rebalanceActions (rebalancer w) actionId)\<lparr>executed := True\<rparr>)\<rparr>\<rparr>)))"

definition rb_transferOwnership :: "txenv \<Rightarrow> chain \<Rightarrow> address \<Rightarrow> error + chain" where
  "rb_transferOwnership env w newOwner =
     rb_onlyOwner env w
    (require (newOwner \<noteq> 0) ''Ownable: new owner is the zero address''
    (Inr (w\<lparr>rebalancer := (rebalancer w)
            \<lparr>rb_owner := newOwner,
             rb_events := rb_events (rebalancer w) @
               [RbOwnershipTransferred (rb_owner (rebalancer w)) newOwner]\<rparr>\<rparr>)))"

definition rb_renounceOwnership :: "txenv \<Rightarrow> chain \<Rightarrow> error + chain" where
  "rb_renounceOwnership env w =
     rb_onlyOwner env w
    (Inr (w\<lparr>rebalancer := (rebalancer w)
            \<lparr>rb_owner := 0,
             rb_events := rb_events (rebalancer w) @
               [RbOwnershipTransferred (rb_owner (rebalancer w)) 0]\<rparr>\<rparr>))"

text \<open>
  Transactions on the two contracts: a call addressed to the PortfolioManager, or one of
  the rebalancer's state-changing entry points.
\<close>

datatype chain_call =
    ToPortfolioManager pm_call
  | SetAuthorizedAgent address bool
  | UpdateTokenPrice uint256 address uint256
  | CreateRebalanceAction address "SwapParams list" "BridgeParams list" uint256
  | ExecuteSwap bytes32 uint256 uint256
  | ExecuteBridge bytes32 uint256 uint256
  | CompleteRebalanceAction bytes32
  | EmergencyPause bytes32
  | RbTransferOwnership address
  | RbRenounceOwnership

fun chain_exec :: "crypto \<Rightarrow> txenv \<Rightarrow> chain \<Rightarrow> chain_call \<Rightarrow> error + chain" where
  "chain_exec c env w (ToPortfolioManager call) =
     bindE (pm_exec env (portfolioManager w) call) (\<lambda>pm'. Inr (w\<lparr>portfolioManager := pm'\<rparr>))"
| "chain_exec c env w (SetAuthorizedAgent a b) = setAuthorizedAgent env w a b"
| "chain_exec c env w (UpdateTokenPrice ch t p) = updateTokenPrice env w ch t p"
| "chain_exec c env w (CreateRebalanceAction u sw br v) =
     map_sum id snd (createRebalanceAction c env w u sw br v)"
| "chain_exec c env w (ExecuteSwap a i out) = executeSwap env w a i out"
| "chain_exec c env w (ExecuteBridge a i amt) = executeBridge env w a i amt"
| "chain_exec c env w (CompleteRebalanceAction a) = completeRebalanceAction env w a"
| "chain_exec c env w (EmergencyPause a) = emergencyPause env w a"
| "chain_exec c env w (RbTransferOwnership a) = rb_transferOwnership env w a"
| "chain_exec c env w RbRenounceOwnership = rb_renounceOwnership env w"

definition chain_transact :: "crypto \<Rightarrow> chain \<Rightarrow> txenv \<times> chain_call \<Rightarrow> chain" where
  "chain_transact c w tx = (case chain_exec c (fst tx) w (snd tx) of Inl e \<Rightarrow> w | Inr w' \<Rightarrow> w')"

definition chain_run :: "crypto \<Rightarrow> chain \<Rightarrow> (txenv \<times> chain_call) list \<Rightarrow> chain" where
  "chain_run c w txs = foldl (chain_transact c) w txs"

section \<open>Notions used to state the properties\<close>

text \<open>
  The sum of the target basis points of an asset list, as a natural number (so without
  any wrap-around), and the drift between a current and a target allocation.
\<close>

definition targetSum :: "Asset list \<Rightarrow> nat" where
  "targetSum xs = sum_list (map (\<lambda>a. unat (targetPercentage a)) xs)"

definition drift :: "uint256 \<Rightarrow> uint256 \<Rightarrow> nat" where
  "drift current target = nat \<bar>uint current - uint target\<bar>"

text \<open>
  The portfolio invariant of the data model: an active portfolio has targets that sum to
  10000 basis points, none of them zero.
\<close>

definition portfolio_inv :: "Portfolio \<Rightarrow> bool" where
  "portfolio_inv p \<longleftrightarrow>
     (isActive p \<longrightarrow> targetSum (assets p) = 10000 \<and> (\<forall>a\<in>set (assets p). 0 < targetPercentage a))"

text \<open>The two incremental mutations of a portfolio.\<close>

fun incremental :: "pm_call \<Rightarrow> bool" where
  "incremental (AddAsset u t c p) = True"
| "incremental (RemoveAsset u t c) = True"
| "incremental call = False"

subsection \<open>Concrete states and inputs for the examples\<close>

abbreviation ex_user :: address where
  "ex_user \<equiv> 1"

abbreviation ex_admin :: address where
  "ex_admin \<equiv> 9"

abbreviation ex_agent :: address where
  "ex_agent \<equiv> 7"

abbreviation ex_tokenA :: address where
  "ex_tokenA \<equiv> 100"

abbreviation ex_tokenB :: address where
  "ex_tokenB \<equiv> 200"

abbreviation ex_asset :: "address \<Rightarrow> uint256 \<Rightarrow> Asset" where
  "ex_asset token pct \<equiv>
     \<lparr>tokenAddress = token, chainId = 1, targetPercentage = pct, asset_isActive = True\<rparr>"

text \<open>
  A call by \<open>caller\<close> at block time \<open>now\<close>. The examples number a block by its
  time, so two calls are in the same block exactly when their times agree; along every
  sequence of transactions below the time never goes back.
\<close>

abbreviation ex_env :: "address \<Rightarrow> uint256 \<Rightarrow> txenv" where
  "ex_env caller now \<equiv> \<lparr>msg_sender = caller, block_timestamp = now, block_number = now\<rparr>"

abbreviation ex_assets_ok :: "Asset list" where
  "ex_assets_ok \<equiv> [ex_asset ex_tokenA 5000, ex_asset ex_tokenB 5000]"

abbreviation ex_assets_9999 :: "Asset list" where
  "ex_assets_9999 \<equiv> [ex_asset ex_tokenA 5000, ex_asset ex_tokenB 4999]"

definition ex_pm_half :: pm_state where
  "ex_pm_half = pm_run (pm_init ex_admin)
     [(ex_env ex_user 5000, CreatePortfolio ex_user [ex_asset ex_tokenA 5000, ex_asset ex_tokenB 5000]),
      (ex_env ex_user 5000, SetDelegationPolicy ex_user ex_agent 50 1000 100 3600)]"

definition ex_pm_rebalanced :: pm_state where
  "ex_pm_rebalanced = pm_run ex_pm_half [(ex_env ex_agent 6000, ExecuteRebalance ex_user 1000)]"

text \<open>The largest \<open>uint256\<close>, which is \<open>2 ^ 256 - 1\<close>.\<close>

abbreviation max_uint256 :: uint256 where
  "max_uint256 \<equiv>
     115792089237316195423570985008687907853269984665640564039457584007913129639935"

definition ex_pm_overflow :: pm_state where
  "ex_pm_overflow = pm_run ex_pm_rebalanced
     [(ex_env ex_user 6000, SetDelegationPolicy ex_user ex_agent 50 1000 100 max_uint256)]"

definition ex_pm_txs :: "(txenv \<times> pm_call) list" where
  "ex_pm_txs =
     [(ex_env ex_user 5000, CreatePortfolio ex_user [ex_asset ex_tokenA 5000, ex_asset ex_tokenB 5000]),
      (ex_env ex_user 5000, SetDelegationPolicy ex_user ex_agent 50 1000 100 3600),
      (ex_env ex_agent 6000, ExecuteRebalance ex_user 1000),
      (ex_env ex_user 7000, UpdatePortfolio ex_user [ex_asset ex_tokenA 2500, ex_asset ex_tokenB 7500])]"

definition ex_pm_added :: pm_state where
  "ex_pm_added = pm_run (pm_init ex_admin)
     [(ex_env ex_user 5000, CreatePortfolio ex_user [ex_asset ex_tokenA 10000]),
      (ex_env ex_user 5000, AddAsset ex_user ex_tokenB 1 5000)]"

definition ex_pm_removed :: pm_state where
  "ex_pm_removed = pm_run (pm_init ex_admin)
     [(ex_env ex_user 5000, CreatePortfolio ex_user [ex_asset ex_tokenA 5000, ex_asset ex_tokenB 5000]),
      (ex_env ex_user 5000, RemoveAsset ex_user ex_tokenA 1)]"


subsection \<open>Concrete states and inputs for the LitProtocolDelegate examples\<close>

text \<open>
  Stand-ins for the hash and the signature recovery, used only to evaluate the examples.
  The hash adds up the bytes and the length of its input. A signature is two bytes, the
  signer and the low byte of the digest it signs; over any other digest it recovers to a
  different address, and a byte string of another length is malformed. Every general
  theorem below holds for any choice of these functions.
\<close>

definition ex_keccak :: "bytes \<Rightarrow> bytes32" where
  "ex_keccak bs = foldl (\<lambda>h b. h + ucast b) (of_nat (length bs)) bs"

definition ex_recover :: "bytes32 \<Rightarrow> bytes \<Rightarrow> address option" where
  "ex_recover h sig =
     (case sig of
        [a, t] \<Rightarrow> Some (if t = ucast h then ucast a else ucast a + 256)
      | _ \<Rightarrow> None)"

definition ex_crypto :: crypto where
  "ex_crypto =
     \<lparr>keccak256 = ex_keccak, toEthSignedMessageHash = (\<lambda>h. h + 1), recover = ex_recover\<rparr>"

abbreviation ex_stranger :: address where
  "ex_stranger \<equiv> 66"

abbreviation ex_op :: "uint256 \<Rightarrow> bytes \<Rightarrow> SignedOperation" where
  "ex_op nonce sig \<equiv> \<lparr>op_user = ex_user, op_delegate = ex_agent, op_nonce = nonce,
     operationType = 1, op_data = [], op_timestamp = 5000, signature = sig\<rparr>"

abbreviation ex_sid0 :: bytes32 where
  "ex_sid0 \<equiv> sessionIdOf ex_crypto ex_user ex_agent 0 5000"

abbreviation ex_sid1 :: bytes32 where
  "ex_sid1 \<equiv> sessionIdOf ex_crypto ex_user ex_agent 1 5200"

definition ex_ld_session :: ld_state where
  "ex_ld_session = ld_run ex_crypto (ld_init ex_admin)
     [(ex_env ex_user 5000, CreateDelegationSession ex_user ex_agent 90000 77 2)]"

definition ex_ld_executed :: ld_state where
  "ex_ld_executed = ld_run ex_crypto ex_ld_session
     [(ex_env ex_agent 5100, ExecuteOperation ex_sid0 (ex_op 0 [1, 154]) 500)]"

definition ex_ld_verified :: ld_state where
  "ex_ld_verified = ld_run ex_crypto ex_ld_session
     [(ex_env ex_stranger 5100, VerifySignedOperation ex_sid0 (ex_op 0 [1, 154]))]"

definition ex_ld_second :: "(txenv \<times> ld_call) list" where
  "ex_ld_second = [(ex_env ex_user 5200, CreateDelegationSession ex_user ex_agent 90000 77 2)]"

definition ex_ld_second_revoked :: "(txenv \<times> ld_call) list" where
  "ex_ld_second_revoked =
     [(ex_env ex_user 5200, CreateDelegationSession ex_user ex_agent 90000 77 2),
      (ex_env ex_user 5300, RevokeDelegationSession ex_sid1)]"

definition ex_ld_badsig :: ld_state where
  "ex_ld_badsig = ld_run ex_crypto ex_ld_session
     [(ex_env ex_stranger 5100, VerifySignedOperation ex_sid0 (ex_op 0 [66, 154]))]"


subsection \<open>Concrete states and inputs for the CrossChainRebalancer examples\<close>

text \<open>
  The rebalancer has address 50; the creations, the pause and the completion of the
  examples are all transactions of the block at time 6000.
\<close>

abbreviation ex_rb_self :: address where
  "ex_rb_self \<equiv> 50"

abbreviation ex_swap :: SwapParams where
  "ex_swap \<equiv> \<lparr>tokenIn = ex_tokenA, tokenOut = ex_tokenB, amountIn = 100, minAmountOut = 99,
     swap_chainId = 1, routeId = 5\<rparr>"

abbreviation ex_swap_other :: SwapParams where
  "ex_swap_other \<equiv> \<lparr>tokenIn = ex_tokenB, tokenOut = ex_tokenA, amountIn = 40, minAmountOut = 30,
     swap_chainId = 1, routeId = 6\<rparr>"

abbreviation ex_swap_same_token :: SwapParams where
  "ex_swap_same_token \<equiv> \<lparr>tokenIn = ex_tokenA, tokenOut = ex_tokenA, amountIn = 100,
     minAmountOut = 99, swap_chainId = 1, routeId = 5\<rparr>"

abbreviation ex_bridge :: BridgeParams where
  "ex_bridge \<equiv> \<lparr>bridge_token = ex_tokenA, bridge_amount = 500, fromChainId = 2, toChainId = 1,
     bridgeId = 8\<rparr>"

abbreviation ex_aid :: bytes32 where
  "ex_aid \<equiv> actionIdOf ex_crypto (ex_env ex_agent 6000) ex_user (Suc 0) (Suc 0)"

definition ex_chain_setup :: "(txenv \<times> chain_call) list" where
  "ex_chain_setup =
     [(ex_env ex_admin 5000, SetAuthorizedAgent ex_agent True),
      (ex_env ex_user 5000, ToPortfolioManager (CreatePortfolio ex_user ex_assets_ok))]"

definition ex_chain_policy :: chain where
  "ex_chain_policy = chain_run ex_crypto (chain_init ex_admin ex_rb_self)
     (ex_chain_setup @
      [(ex_env ex_user 5000,
          ToPortfolioManager (SetDelegationPolicy ex_user ex_rb_self 50 1000 100 3600))])"

definition ex_chain_ready :: chain where
  "ex_chain_ready = chain_run ex_crypto ex_chain_policy
     [(ex_env ex_agent 6000, CreateRebalanceAction ex_user [ex_swap] [ex_bridge] 1000)]"

definition ex_chain_bridged :: chain where
  "ex_chain_bridged = chain_run ex_crypto ex_chain_ready
     [(ex_env ex_agent 6000, ExecuteBridge ex_aid 0 500)]"

definition ex_chain_same_token :: chain where
  "ex_chain_same_token = chain_run ex_crypto ex_chain_policy
     [(ex_env ex_agent 6000, CreateRebalanceAction ex_user [ex_swap_same_token] [ex_bridge] 1000)]"

definition ex_chain_twice :: chain where
  "ex_chain_twice = chain_run ex_crypto ex_chain_ready
     [(ex_env ex_agent 6000, CreateRebalanceAction ex_user [ex_swap_other] [ex_bridge] 2000)]"

definition ex_chain_paused :: chain where
  "ex_chain_paused = chain_run ex_crypto ex_chain_ready [(ex_env ex_admin 6000, EmergencyPause ex_aid)]"

definition ex_chain_completed :: chain where
  "ex_chain_completed = chain_run ex_crypto ex_chain_ready
     [(ex_env ex_agent 6000, CompleteRebalanceAction ex_aid)]"

definition ex_recreate :: "(txenv \<times> chain_call) list" where
  "ex_recreate =
     [(ex_env ex_agent 6000, CreateRebalanceAction ex_user [ex_swap_other] [ex_bridge] 2000)]"

text \<open>
  The setting of the repository's test \<open>Should execute swap successfully\<close>: the
  owner authorizes the agent, and the agent creates an action for the user with one swap
  leg (100 tokens in, at least 99 out, in wei), no bridge leg and a total value of 1000
  tokens. Nobody sets a delegation policy. In \<open>ex_chain_agent_policy\<close> the user has a
  portfolio and has set the policy the way the PortfolioManager documents it and its own
  tests do, with the autopilot agent as delegate.
\<close>

abbreviation ex_swap_wei :: SwapParams where
  "ex_swap_wei \<equiv> \<lparr>tokenIn = ex_tokenA, tokenOut = ex_tokenB, amountIn = 100000000000000000000,
     minAmountOut = 99000000000000000000, swap_chainId = 1, routeId = 5\<rparr>"

abbreviation ex_aid_swap_only :: bytes32 where
  "ex_aid_swap_only \<equiv> actionIdOf ex_crypto (ex_env ex_agent 6000) ex_user (Suc 0) 0"

definition ex_chain_test :: chain where
  "ex_chain_test = chain_run ex_crypto (chain_init ex_admin ex_rb_self)
     [(ex_env ex_admin 5000, SetAuthorizedAgent ex_agent True),
      (ex_env ex_agent 6000,
         CreateRebalanceAction ex_user [ex_swap_wei] [] 1000000000000000000000)]"

definition ex_chain_agent_policy :: chain where
  "ex_chain_agent_policy = chain_run ex_crypto (chain_init ex_admin ex_rb_self)
     (ex_chain_setup @
      [(ex_env ex_user 5000,
          ToPortfolioManager (SetDelegationPolicy ex_user ex_agent 50 1000 100 3600)),
       (ex_env ex_agent 6000,
          CreateRebalanceAction ex_user [ex_swap_wei] [] 1000000000000000000000)])"


section \<open>Properties of PortfolioManager\<close>

text \<open>The definitions that \<open>simp\<close> unfolds to run the contract on a concrete input.\<close>

lemmas pm_defs = pm_init_def createPortfolio_def updatePortfolio_def
  addAsset_def removeAsset_def setDelegationPolicy_def revokeDelegation_def updateBalance_def
  executeRebalance_def onlyPortfolioOwner_def portfolioExists_def validPercentage_def
  require_def bindE_def checked_add_def

subsection \<open>Checked addition and the validation loop\<close>

lemma unat_uint256_bound: "unat (w :: uint256) < 2 ^ 256"
  using unsigned_less [of w, where 'a = nat] by simp

lemma checked_add_Inr_iff:
  "checked_add a b = Inr t \<longleftrightarrow> unat a + unat b < 2 ^ 256 \<and> unat t = unat a + unat b"
proof -
  have "unat a + unat b < 2 ^ 256 \<Longrightarrow> unat (a + b) = unat a + unat b"
    using unat_add_lem [of a b] by simp
  moreover have "unat a + unat b < 2 ^ 256 \<Longrightarrow> unat t = unat a + unat b \<Longrightarrow> t = a + b"
    using unat_add_lem [of a b] by (simp add: word_unat_eq_iff)
  ultimately show ?thesis
    by (auto simp: checked_add_def)
qed

lemma sumTargets_Inr_iff:
  "sumTargets xs acc = Inr t \<longleftrightarrow>
     (\<forall>a\<in>set xs. tokenAddress a \<noteq> 0 \<and> 0 < targetPercentage a) \<and>
     unat acc + targetSum xs < 2 ^ 256 \<and> unat t = unat acc + targetSum xs"
proof (induction xs arbitrary: acc)
  case Nil
  then show ?case
    using unat_uint256_bound [of acc] by (auto simp: targetSum_def word_unat_eq_iff)
next
  case (Cons a xs)
  show ?case
  proof (cases "checked_add acc (targetPercentage a)")
    case (Inl e)
    then have "\<not> unat acc + unat (targetPercentage a) < 2 ^ 256"
      by (auto simp: checked_add_def split: if_splits)
    with Inl show ?thesis
      by (auto simp: require_def bindE_def targetSum_def)
  next
    case (Inr u)
    then have u: "unat acc + unat (targetPercentage a) < 2 ^ 256"
         "unat u = unat acc + unat (targetPercentage a)"
      by (simp_all add: checked_add_Inr_iff)
    show ?thesis
      using Inr u Cons.IH [of u]
      by (auto simp: require_def bindE_def targetSum_def add.assoc)
  qed
qed

lemma sumTargets_zero_iff:
  "sumTargets xs 0 = Inr t \<longleftrightarrow>
     (\<forall>a\<in>set xs. tokenAddress a \<noteq> 0 \<and> 0 < targetPercentage a) \<and>
     targetSum xs < 2 ^ 256 \<and> unat t = targetSum xs"
  by (simp add: sumTargets_Inr_iff)

lemma sumTargets_fails_iff:
  "(\<exists>e. sumTargets xs 0 = Inl e) \<longleftrightarrow>
     \<not> ((\<forall>a\<in>set xs. tokenAddress a \<noteq> 0 \<and> 0 < targetPercentage a) \<and> targetSum xs < 2 ^ 256)"
proof -
  have "targetSum xs < 2 ^ 256 \<Longrightarrow> unat (of_nat (targetSum xs) :: uint256) = targetSum xs"
    by (simp add: unat_of_nat)
  then have "(\<exists>t. sumTargets xs 0 = Inr t) \<longleftrightarrow>
     (\<forall>a\<in>set xs. tokenAddress a \<noteq> 0 \<and> 0 < targetPercentage a) \<and> targetSum xs < 2 ^ 256"
    unfolding sumTargets_zero_iff by blast
  then show ?thesis
    by (cases "sumTargets xs 0") auto
qed

lemma createPortfolio_Inr_iff:
  "(\<exists>s'. createPortfolio env s user xs = Inr s') \<longleftrightarrow>
     (msg_sender env = user \<or> msg_sender env = pm_owner s) \<and> \<not> isActive (portfolios s user) \<and>
     xs \<noteq> [] \<and> (\<forall>a\<in>set xs. tokenAddress a \<noteq> 0 \<and> 0 < targetPercentage a) \<and>
     targetSum xs = 10000"
proof (cases "sumTargets xs 0")
  case (Inl e)
  then have "\<not> ((\<forall>a\<in>set xs. tokenAddress a \<noteq> 0 \<and> 0 < targetPercentage a) \<and> targetSum xs < 2 ^ 256)"
    using sumTargets_fails_iff [of xs] by blast
  with Inl show ?thesis
    by (auto simp: createPortfolio_def onlyPortfolioOwner_def require_def bindE_def)
next
  case (Inr t)
  then have t: "(\<forall>a\<in>set xs. tokenAddress a \<noteq> 0 \<and> 0 < targetPercentage a)" "unat t = targetSum xs"
    by (simp_all add: sumTargets_zero_iff)
  have "t = 10000 \<longleftrightarrow> unat t = 10000"
    by (simp add: word_unat_eq_iff)
  with Inr t show ?thesis
    by (auto simp: createPortfolio_def onlyPortfolioOwner_def require_def bindE_def)
qed

lemma updatePortfolio_Inr_iff:
  "(\<exists>s'. updatePortfolio env s user xs = Inr s') \<longleftrightarrow>
     (msg_sender env = user \<or> msg_sender env = pm_owner s) \<and> isActive (portfolios s user) \<and>
     xs \<noteq> [] \<and> (\<forall>a\<in>set xs. tokenAddress a \<noteq> 0 \<and> 0 < targetPercentage a) \<and>
     targetSum xs = 10000"
proof (cases "sumTargets xs 0")
  case (Inl e)
  then have "\<not> ((\<forall>a\<in>set xs. tokenAddress a \<noteq> 0 \<and> 0 < targetPercentage a) \<and> targetSum xs < 2 ^ 256)"
    using sumTargets_fails_iff [of xs] by blast
  with Inl show ?thesis
    by (auto simp: updatePortfolio_def onlyPortfolioOwner_def portfolioExists_def require_def bindE_def)
next
  case (Inr t)
  then have t: "(\<forall>a\<in>set xs. tokenAddress a \<noteq> 0 \<and> 0 < targetPercentage a)" "unat t = targetSum xs"
    by (simp_all add: sumTargets_zero_iff)
  have "t = 10000 \<longleftrightarrow> unat t = 10000"
    by (simp add: word_unat_eq_iff)
  with Inr t show ?thesis
    by (auto simp: updatePortfolio_def onlyPortfolioOwner_def portfolioExists_def require_def bindE_def)
qed

lemma createPortfolio_stores:
  assumes "createPortfolio env s user xs = Inr s'"
  shows "portfolios s' = (portfolios s)(user :=
           \<lparr>assets = xs, totalValue = 0, lastRebalance = 0, isActive = True\<rparr>)"
  using assms
  by (auto simp: createPortfolio_def onlyPortfolioOwner_def require_def bindE_def
           split: if_splits sum.splits)

lemma updatePortfolio_stores:
  assumes "updatePortfolio env s user xs = Inr s'"
  shows "portfolios s' = (portfolios s)(user := (portfolios s user)\<lparr>assets := xs\<rparr>)"
  using assms
  by (auto simp: updatePortfolio_def onlyPortfolioOwner_def portfolioExists_def require_def bindE_def
           split: if_splits sum.splits)

text \<open>
  Claim C7. For a non-empty asset list whose token addresses are all non-zero, presented
  by the portfolio's owner or the contract owner, \<open>createPortfolio\<close> (no active
  portfolio yet) and \<open>updatePortfolio\<close> (an active portfolio) succeed exactly when the
  targets sum to 10000 and each target is positive. Lists that sum to 9999 or 10001 are
  rejected, and a rejected call leaves the whole stored state as it was.
\<close>

theorem portfolio_validation:
  assumes "new_assets \<noteq> []"
    and "\<forall>a\<in>set new_assets. tokenAddress a \<noteq> 0"
    and "msg_sender env = user \<or> msg_sender env = pm_owner s"
  shows "(\<not> isActive (portfolios s user) \<longrightarrow>
            ((\<exists>s'. createPortfolio env s user new_assets = Inr s') \<longleftrightarrow>
             targetSum new_assets = 10000 \<and> (\<forall>a\<in>set new_assets. 0 < targetPercentage a))) \<and>
         (isActive (portfolios s user) \<longrightarrow>
            ((\<exists>s'. updatePortfolio env s user new_assets = Inr s') \<longleftrightarrow>
             targetSum new_assets = 10000 \<and> (\<forall>a\<in>set new_assets. 0 < targetPercentage a))) \<and>
         (targetSum new_assets = 9999 \<or> targetSum new_assets = 10001 \<longrightarrow>
            (\<forall>s'. createPortfolio env s user new_assets \<noteq> Inr s') \<and>
            (\<forall>s'. updatePortfolio env s user new_assets \<noteq> Inr s')) \<and>
         ((\<forall>s'. createPortfolio env s user new_assets \<noteq> Inr s') \<longrightarrow>
            pm_transact s (env, CreatePortfolio user new_assets) = s) \<and>
         ((\<forall>s'. updatePortfolio env s user new_assets \<noteq> Inr s') \<longrightarrow>
            pm_transact s (env, UpdatePortfolio user new_assets) = s)"
proof -
  have c: "(\<exists>s'. createPortfolio env s user new_assets = Inr s') \<longleftrightarrow>
      \<not> isActive (portfolios s user) \<and> targetSum new_assets = 10000 \<and>
      (\<forall>a\<in>set new_assets. 0 < targetPercentage a)"
    using assms by (auto simp: createPortfolio_Inr_iff)
  have u: "(\<exists>s'. updatePortfolio env s user new_assets = Inr s') \<longleftrightarrow>
      isActive (portfolios s user) \<and> targetSum new_assets = 10000 \<and>
      (\<forall>a\<in>set new_assets. 0 < targetPercentage a)"
    using assms by (auto simp: updatePortfolio_Inr_iff)
  have p1: "\<not> isActive (portfolios s user) \<longrightarrow>
            ((\<exists>s'. createPortfolio env s user new_assets = Inr s') \<longleftrightarrow>
             targetSum new_assets = 10000 \<and> (\<forall>a\<in>set new_assets. 0 < targetPercentage a))"
    using c by simp
  have p2: "isActive (portfolios s user) \<longrightarrow>
            ((\<exists>s'. updatePortfolio env s user new_assets = Inr s') \<longleftrightarrow>
             targetSum new_assets = 10000 \<and> (\<forall>a\<in>set new_assets. 0 < targetPercentage a))"
    using u by simp
  have p3: "targetSum new_assets = 9999 \<or> targetSum new_assets = 10001 \<longrightarrow>
            (\<forall>s'. createPortfolio env s user new_assets \<noteq> Inr s') \<and>
            (\<forall>s'. updatePortfolio env s user new_assets \<noteq> Inr s')"
  proof
    assume "targetSum new_assets = 9999 \<or> targetSum new_assets = 10001"
    then have "targetSum new_assets \<noteq> 10000" by auto
    with c u show "(\<forall>s'. createPortfolio env s user new_assets \<noteq> Inr s') \<and>
            (\<forall>s'. updatePortfolio env s user new_assets \<noteq> Inr s')"
      by blast
  qed
  have p4: "(\<forall>s'. createPortfolio env s user new_assets \<noteq> Inr s') \<longrightarrow>
      pm_transact s (env, CreatePortfolio user new_assets) = s"
    by (cases "createPortfolio env s user new_assets") (simp_all add: pm_transact_def)
  have p5: "(\<forall>s'. updatePortfolio env s user new_assets \<noteq> Inr s') \<longrightarrow>
      pm_transact s (env, UpdatePortfolio user new_assets) = s"
    by (cases "updatePortfolio env s user new_assets") (simp_all add: pm_transact_def)
  from p1 p2 p3 p4 p5 show ?thesis
    by (intro conjI)
qed

theorem portfolio_validation_witness:
  "ex_assets_ok \<noteq> [] \<and> list_all (\<lambda>a. tokenAddress a \<noteq> 0) ex_assets_ok \<and>
   msg_sender (ex_env ex_user 5000) = ex_user \<and>
   \<not> isActive (portfolios (pm_init ex_admin) ex_user) \<and>
   targetSum ex_assets_ok = 10000 \<and>
   (\<exists>s'. createPortfolio (ex_env ex_user 5000) (pm_init ex_admin) ex_user ex_assets_ok = Inr s') \<and>
   ex_assets_9999 \<noteq> [] \<and> list_all (\<lambda>a. tokenAddress a \<noteq> 0) ex_assets_9999 \<and>
   isActive (portfolios ex_pm_half ex_user) \<and>
   targetSum ex_assets_9999 = 9999 \<and>
   pm_transact ex_pm_half (ex_env ex_user 5000, UpdatePortfolio ex_user ex_assets_9999) = ex_pm_half"
  using portfolio_validation [of ex_assets_ok "ex_env ex_user 5000" ex_user "pm_init ex_admin"]
        portfolio_validation [of ex_assets_9999 "ex_env ex_user 5000" ex_user ex_pm_half]
  by (simp add: ex_pm_half_def pm_run_def pm_transact_def pm_defs targetSum_def)

subsection \<open>Drift and \<open>needsRebalancing\<close>\<close>

lemma drift_nat:
  "drift c t = (if unat t < unat c then unat c - unat t else unat t - unat c)"
  unfolding drift_def uint_nat by (simp only: split: if_split) linarith

lemma word_drift:
  "unat (if (c :: uint256) > t then c - t else t - c) = drift c t"
proof (cases "c > t")
  case True
  then have "unat t < unat c" by (simp add: word_less_nat_alt)
  moreover from True have "unat (c - t) = unat c - unat t"
    by (simp add: unat_sub)
  ultimately show ?thesis using True by (simp add: drift_nat)
next
  case False
  then have "unat c \<le> unat t" by (simp add: word_le_nat_alt not_less)
  moreover from False have "unat (t - c) = unat t - unat c"
    by (simp add: unat_sub not_less)
  ultimately show ?thesis using False by (simp add: drift_nat)
qed

lemma driftExceeds_iff:
  "length cs = length xs \<Longrightarrow>
   driftExceeds cs xs th \<longleftrightarrow>
     (\<exists>p\<in>set (zip cs xs). unat th < drift (fst p) (targetPercentage (snd p)))"
proof (induction cs xs rule: list_induct2)
  case Nil
  then show ?case by simp
next
  case (Cons c cs a xs)
  have "(if c > targetPercentage a then c - targetPercentage a else targetPercentage a - c) > th
        \<longleftrightarrow> unat th < drift c (targetPercentage a)"
    using word_drift [of "targetPercentage a" c] by (simp add: word_less_nat_alt)
  with Cons.IH show ?case
    by (auto simp: Let_def)
qed

text \<open>
  Claim C6, as the code has it. \<open>needsRebalancing\<close> returns false when the policy is
  inactive. For an active policy the end of the cooldown is computed in checked 256-bit
  arithmetic: when \<open>lastRebalance + cooldownPeriod\<close> does not fit, the call aborts
  with a panic; when it fits and the current time is before it, the call returns false.
  Otherwise a current-allocation array of the wrong length is rejected with
  \<open>Invalid allocation length\<close>, and an array of the right length gives true exactly
  when some index drifts from its target by more than the threshold.
\<close>

theorem needsRebalancing_spec:
  "needsRebalancing env s user currentAllocations =
     (if \<not> policy_isActive (delegationPolicies s user) then Inr False
      else if 2 ^ 256 \<le> unat (lastRebalance (portfolios s user)) +
                         unat (cooldownPeriod (delegationPolicies s user)) then Inl Panic
      else if unat (block_timestamp env) < unat (lastRebalance (portfolios s user)) +
                         unat (cooldownPeriod (delegationPolicies s user)) then Inr False
      else if length currentAllocations \<noteq> length (assets (portfolios s user))
        then Inl (Revert ''Invalid allocation length'')
      else Inr (\<exists>p\<in>set (zip currentAllocations (assets (portfolios s user))).
                  unat (rebalanceThreshold (delegationPolicies s user)) <
                  drift (fst p) (targetPercentage (snd p))))"
proof (cases "checked_add (lastRebalance (portfolios s user)) (cooldownPeriod (delegationPolicies s user))")
  case (Inl e)
  then show ?thesis
    by (auto simp: needsRebalancing_def bindE_def checked_add_def split: if_splits)
next
  case (Inr ready)
  then have r: "unat (lastRebalance (portfolios s user)) +
      unat (cooldownPeriod (delegationPolicies s user)) < 2 ^ 256"
    "unat ready = unat (lastRebalance (portfolios s user)) +
      unat (cooldownPeriod (delegationPolicies s user))"
    by (simp_all add: checked_add_Inr_iff)
  show ?thesis
    using Inr r
    by (simp add: needsRebalancing_def bindE_def require_def word_less_nat_alt driftExceeds_iff)
qed

theorem needsRebalancing_spec_witness:
  "needsRebalancing (ex_env ex_user 9000) ex_pm_half ex_user [6000, 4000] = Inr True \<and>
   needsRebalancing (ex_env ex_user 9000) ex_pm_half ex_user [5050, 4950] = Inr False \<and>
   needsRebalancing (ex_env ex_user 9000) ex_pm_half ex_user [6000] =
     Inl (Revert ''Invalid allocation length'') \<and>
   lastRebalance (portfolios ex_pm_rebalanced ex_user) = 6000 \<and>
   needsRebalancing (ex_env ex_user 7000) ex_pm_rebalanced ex_user [6000, 4000] = Inr False \<and>
   needsRebalancing (ex_env ex_user 9000) (pm_init ex_admin) ex_user [6000] = Inr False"
  using needsRebalancing_spec [of "ex_env ex_user 9000" ex_pm_half ex_user "[6000, 4000]"]
        needsRebalancing_spec [of "ex_env ex_user 9000" ex_pm_half ex_user "[5050, 4950]"]
        needsRebalancing_spec [of "ex_env ex_user 9000" ex_pm_half ex_user "[6000]"]
        needsRebalancing_spec [of "ex_env ex_user 7000" ex_pm_rebalanced ex_user "[6000, 4000]"]
        needsRebalancing_spec [of "ex_env ex_user 9000" "pm_init ex_admin" ex_user "[6000]"]
  by (simp add: ex_pm_half_def ex_pm_rebalanced_def pm_run_def pm_transact_def pm_defs drift_def)

text \<open>
  Claim C6 as the specification states it promises false whenever the current time is
  before \<open>lastRebalance + cooldownSec\<close>. In the state below the owner has set the
  cooldown to the largest 256-bit value after one rebalance; the policy is active, the
  time is before the end of the cooldown, and the call aborts instead of returning false.
\<close>

theorem needsRebalancing_overflow_counterexample:
  "policy_isActive (delegationPolicies ex_pm_overflow ex_user) \<and>
   unat (block_timestamp (ex_env ex_user 7000)) <
     unat (lastRebalance (portfolios ex_pm_overflow ex_user)) +
     unat (cooldownPeriod (delegationPolicies ex_pm_overflow ex_user)) \<and>
   needsRebalancing (ex_env ex_user 7000) ex_pm_overflow ex_user [6000, 4000] = Inl Panic"
  by (simp add: needsRebalancing_def ex_pm_overflow_def ex_pm_rebalanced_def ex_pm_half_def
        pm_run_def pm_transact_def pm_defs)

subsection \<open>The portfolio invariant\<close>

lemma createPortfolio_inv:
  assumes "createPortfolio env s user xs = Inr s'" and "\<forall>u. portfolio_inv (portfolios s u)"
  shows "portfolio_inv (portfolios s' u)"
proof -
  from assms(1) have "targetSum xs = 10000 \<and> (\<forall>a\<in>set xs. 0 < targetPercentage a)"
    using createPortfolio_Inr_iff [of env s user xs] by blast
  with assms(2) createPortfolio_stores [OF assms(1)] show ?thesis
    by (simp add: portfolio_inv_def)
qed

lemma updatePortfolio_inv:
  assumes "updatePortfolio env s user xs = Inr s'" and "\<forall>u. portfolio_inv (portfolios s u)"
  shows "portfolio_inv (portfolios s' u)"
proof -
  from assms(1) have "targetSum xs = 10000 \<and> (\<forall>a\<in>set xs. 0 < targetPercentage a)"
    using updatePortfolio_Inr_iff [of env s user xs] by blast
  with assms(2) updatePortfolio_stores [OF assms(1)] show ?thesis
    by (simp add: portfolio_inv_def)
qed

lemma executeRebalance_inv:
  assumes "executeRebalance env s user v = Inr s'" and "\<forall>u. portfolio_inv (portfolios s u)"
  shows "portfolio_inv (portfolios s' u)"
  using assms
  by (auto simp: executeRebalance_def require_def bindE_def portfolio_inv_def
           split: if_splits sum.splits)

lemma other_calls_keep_portfolios:
  "setDelegationPolicy env s user d sl am th cd = Inr s' \<Longrightarrow> portfolios s' = portfolios s"
  "revokeDelegation env s user = Inr s' \<Longrightarrow> portfolios s' = portfolios s"
  "updateBalance env s user t b = Inr s' \<Longrightarrow> portfolios s' = portfolios s"
  "pm_transferOwnership env s a = Inr s' \<Longrightarrow> portfolios s' = portfolios s"
  "pm_renounceOwnership env s = Inr s' \<Longrightarrow> portfolios s' = portfolios s"
  by (auto simp: setDelegationPolicy_def revokeDelegation_def updateBalance_def
        pm_transferOwnership_def pm_renounceOwnership_def onlyPortfolioOwner_def
        portfolioExists_def require_def split: if_splits)

lemma pm_exec_inv:
  assumes "\<not> incremental call" and "pm_exec env s call = Inr s'"
    and "\<forall>u. portfolio_inv (portfolios s u)"
  shows "portfolio_inv (portfolios s' u)"
  using assms
  by (cases call)
     (auto dest: createPortfolio_inv updatePortfolio_inv executeRebalance_inv
        other_calls_keep_portfolios)

lemma pm_transact_inv:
  assumes "\<not> incremental (snd tx)" and "\<forall>u. portfolio_inv (portfolios s u)"
  shows "\<forall>u. portfolio_inv (portfolios (pm_transact s tx) u)"
  using assms pm_exec_inv [of "snd tx" "fst tx" s]
  by (cases "pm_exec (fst tx) s (snd tx)") (auto simp: pm_transact_def)

text \<open>
  What the two incremental mutations check: \<open>addAsset\<close> the caller, the portfolio,
  the bound 10000 on the new target and that the asset is new; \<open>removeAsset\<close> the
  caller, the portfolio and that the asset is stored. A successful \<open>addAsset\<close> raises
  the sum of the targets by the new target.
\<close>

lemma addAsset_Inr_iff:
  "addAsset env s user token chain percentage = Inr s' \<longleftrightarrow>
     (msg_sender env = user \<or> msg_sender env = pm_owner s) \<and> isActive (portfolios s user) \<and>
     percentage \<le> 10000 \<and> assetAbsent (assets (portfolios s user)) token chain \<and>
     s' = s\<lparr>portfolios := (portfolios s)(user := (portfolios s user)
              \<lparr>assets := assets (portfolios s user) @
                 [\<lparr>tokenAddress = token, chainId = chain, targetPercentage = percentage,
                   asset_isActive = True\<rparr>]\<rparr>),
            pm_events := pm_events s @ [AssetAdded user token chain percentage]\<rparr>"
  by (auto simp: addAsset_def onlyPortfolioOwner_def portfolioExists_def validPercentage_def
        require_def)

lemma addAsset_targetSum:
  assumes "addAsset env s user token chain percentage = Inr s'"
  shows "targetSum (assets (portfolios s' user)) =
           targetSum (assets (portfolios s user)) + unat percentage"
  using assms by (auto simp: addAsset_Inr_iff targetSum_def)

lemma removeAsset_Inr_iff:
  "(\<exists>s'. removeAsset env s user token chain = Inr s') \<longleftrightarrow>
     (msg_sender env = user \<or> msg_sender env = pm_owner s) \<and> isActive (portfolios s user) \<and>
     \<not> assetAbsent (assets (portfolios s user)) token chain"
proof -
  have idx: "assetAbsent xs token chain \<longleftrightarrow> assetIndex xs token chain = None" for xs
    by (induction xs) auto
  show ?thesis
    by (auto simp: removeAsset_def onlyPortfolioOwner_def portfolioExists_def require_def idx
          split: option.splits)
qed

text \<open>
  Claim C5, as the code has it. \<open>createPortfolio\<close> and \<open>updatePortfolio\<close> validate
  the whole list, so the invariant (targets of an active portfolio sum to 10000, none is
  zero) holds for every owner after any sequence of calls that contains no \<open>addAsset\<close>
  and no \<open>removeAsset\<close>. The two incremental calls do not validate the sum:
  \<open>addAsset\<close> checks only that the new target is at most 10000 and that the asset is
  new, \<open>removeAsset\<close> only that the asset is stored.
\<close>

theorem portfolio_invariant:
  assumes "\<forall>u. portfolio_inv (portfolios s u)"
    and "\<forall>tx\<in>set txs. \<not> incremental (snd tx)"
  shows "\<forall>u. portfolio_inv (portfolios (pm_run s txs) u)"
  using assms
proof (induction txs arbitrary: s)
  case Nil
  then show ?case by (simp add: pm_run_def)
next
  case (Cons tx txs)
  from Cons.prems have "\<forall>u. portfolio_inv (portfolios (pm_transact s tx) u)"
    by (simp add: pm_transact_inv)
  with Cons.IH [of "pm_transact s tx"] Cons.prems(2) show ?case
    by (simp add: pm_run_def)
qed

theorem portfolio_invariant_witness:
  "list_all (\<lambda>tx. \<not> incremental (snd tx)) ex_pm_txs \<and>
   isActive (portfolios (pm_run (pm_init ex_admin) ex_pm_txs) ex_user) \<and>
   map targetPercentage (assets (portfolios (pm_run (pm_init ex_admin) ex_pm_txs) ex_user)) =
     [2500, 7500] \<and>
   targetSum (assets (portfolios (pm_run (pm_init ex_admin) ex_pm_txs) ex_user)) = 10000"
proof -
  have h1: "\<forall>u. portfolio_inv (portfolios (pm_init ex_admin) u)"
    by (simp add: portfolio_inv_def pm_init_def)
  have h2: "\<forall>tx\<in>set ex_pm_txs. \<not> incremental (snd tx)"
    by (simp add: ex_pm_txs_def)
  have e: "isActive (portfolios (pm_run (pm_init ex_admin) ex_pm_txs) ex_user) \<and>
     map targetPercentage (assets (portfolios (pm_run (pm_init ex_admin) ex_pm_txs) ex_user)) =
       [2500, 7500]"
    by (simp add: ex_pm_txs_def pm_run_def pm_transact_def pm_defs)
  from h2 e portfolio_invariant [OF h1 h2] show ?thesis
    by (simp add: portfolio_inv_def list_all_iff)
qed

text \<open>
  Claim C5 as the specification states it fails: after \<open>createPortfolio\<close> with one asset of 10000 basis
  points, \<open>addAsset\<close> with 5000 succeeds and leaves an active portfolio that sums to
  15000; after a 5000/5000 portfolio, \<open>removeAsset\<close> leaves one that sums to 5000.
\<close>

theorem addAsset_removeAsset_counterexample:
  "isActive (portfolios ex_pm_added ex_user) \<and>
   targetSum (assets (portfolios ex_pm_added ex_user)) = 15000 \<and>
   isActive (portfolios ex_pm_removed ex_user) \<and>
   targetSum (assets (portfolios ex_pm_removed ex_user)) = 5000"
  by (simp add: ex_pm_added_def ex_pm_removed_def pm_run_def pm_transact_def pm_defs
        targetSum_def swapRemove_def)

section \<open>Properties of LitProtocolDelegate\<close>

lemmas ld_defs = ld_run_def ld_transact_def ld_init_def createDelegationSession_def
  revokeDelegationSession_def verifySignedOperation_def executeOperation_def
  batchExecuteOperations_def emergencyRevokeUserSessions_def ld_transferOwnership_def
  ld_renounceOwnership_def validSession_def onlyDelegate_def
  require_def bindE_def checked_add_def

lemma ex_crypto_fields:
  "keccak256 ex_crypto = ex_keccak"
  "toEthSignedMessageHash ex_crypto = (\<lambda>h. h + 1)"
  "recover ex_crypto = ex_recover"
  by (simp_all add: ex_crypto_def)

lemma ex_sessionIds:
  "ex_sid0 = 267"
  "ex_sid1 = 213"
  by (simp_all add: sessionIdOf_def ex_crypto_fields ex_keccak_def be_bytes_def upt_rec
        drop_bit_eq_div)

lemma ex_keccak_short: "ex_keccak [a, b] = 2 + ucast a + ucast b"
  by (simp add: ex_keccak_def)

text \<open>
  The message hashes of the two example operations, with nonce 0 and with nonce 1, under
  the policy hash 77. The digest that is signed is one more, so the owner's signatures
  are \<open>[1, 154]\<close> and \<open>[1, 155]\<close>.
\<close>

lemma ex_digests:
  "messageHash ex_crypto (ex_op 0 sg) 77 = 409"
  "messageHash ex_crypto (ex_op 1 sg) 77 = 410"
  by (simp_all add: messageHash_def ex_crypto_fields ex_keccak_def be_bytes_def upt_rec
        drop_bit_eq_div)

lemmas ex_ld_defs = ex_crypto_fields ex_sessionIds ex_keccak_short ex_digests ex_recover_def
  ex_ld_session_def

subsection \<open>What a verification does\<close>

lemma verifySignedOperation_Inr_D:
  assumes "verifySignedOperation c env s sid operation = Inr (v, s')"
  shows "s' = s\<lparr>usedSignatures := (usedSignatures s)(keccak256 c (signature operation) := True),
                 ld_events := ld_events s @
                   [SignatureVerified sid (ds_user (delegationSessions s sid)) v]\<rparr>"
    and "\<not> usedSignatures s (keccak256 c (signature operation))"
    and "isSessionValid env s sid"
    and "op_nonce operation = ds_nonce (delegationSessions s sid)"
  using assms
  by (auto simp: verifySignedOperation_def validSession_def require_def Let_def isSessionValid_def
           split: option.splits if_splits)

lemma verifySignedOperation_used_fails:
  assumes "usedSignatures s (keccak256 c (signature operation))"
  shows "\<exists>e. verifySignedOperation c env s sid operation = Inl e"
  using assms
  by (auto simp: verifySignedOperation_def validSession_def require_def Let_def
           split: option.splits)

lemma verify_used_mono:
  assumes "verifySignedOperation c env s sid operation = Inr (v, s')" and "usedSignatures s h"
  shows "usedSignatures s' h"
  using verifySignedOperation_Inr_D(1) [OF assms(1)] assms(2) by simp

lemma batchLoop_used_mono:
  "batchLoop c env s sid ops hashes = Inr s' \<Longrightarrow> usedSignatures s h \<Longrightarrow> usedSignatures s' h"
proof (induction ops arbitrary: s hashes)
  case Nil
  then show ?case by simp
next
  case (Cons operation ops)
  show ?case
  proof (cases hashes)
    case Nil
    with Cons.prems show ?thesis by simp
  next
    case (Cons operationHash hs)
    with Cons.prems(1) obtain v s1 where
      v: "verifySignedOperation c env s sid operation = Inr (v, s1)"
      and rest: "batchLoop c env
         (s1\<lparr>ld_events := ld_events s1 @
               [OperationExecuted sid (ds_user (delegationSessions s1 sid))
                  (ds_delegate (delegationSessions s1 sid))
                  (operationType operation) operationHash]\<rparr>) sid ops hs = Inr s'"
      by (auto simp: bindE_def require_def split: sum.splits if_splits)
    from verify_used_mono [OF v Cons.prems(2)] have "usedSignatures s1 h" .
    then show ?thesis
      using Cons.IH [OF rest] by simp
  qed
qed

lemma executeOperation_Inr_D:
  assumes "executeOperation c env s sid operation oh = Inr s'"
  shows "\<exists>s1. verifySignedOperation c env s sid operation = Inr (True, s1) \<and>
           msg_sender env = ds_delegate (delegationSessions s sid) \<and>
           unat (operationsUsed (delegationSessions s1 sid)) + 1 < 2 ^ 256 \<and>
           s' = s1\<lparr>delegationSessions := (delegationSessions s1)(sid :=
                     (delegationSessions s1 sid)
                       \<lparr>operationsUsed := operationsUsed (delegationSessions s1 sid) + 1\<rparr>),
                   ld_events := ld_events s1 @
                     [OperationExecuted sid (ds_user (delegationSessions s1 sid))
                        (ds_delegate (delegationSessions s1 sid))
                        (operationType operation) oh]\<rparr>"
proof (cases "verifySignedOperation c env s sid operation")
  case (Inl e)
  with assms show ?thesis
    by (simp add: executeOperation_def onlyDelegate_def require_def bindE_def split: if_splits)
next
  case (Inr r)
  obtain v s1 where r: "r = (v, s1)" by (cases r)
  with Inr assms show ?thesis
    by (simp add: executeOperation_def onlyDelegate_def require_def bindE_def checked_add_def
          split: if_splits)
qed

lemma ld_exec_used_mono:
  assumes "ld_exec c env s call = Inr s'" and "usedSignatures s h"
  shows "usedSignatures s' h"
proof (cases call)
  case (VerifySignedOperation sid operation)
  with assms show ?thesis
    by (cases "verifySignedOperation c env s sid operation") (auto dest: verify_used_mono)
next
  case (ExecuteOperation sid operation oh)
  with assms(1) obtain s1 where
    v: "verifySignedOperation c env s sid operation = Inr (True, s1)"
    and "usedSignatures s' = usedSignatures s1"
    using executeOperation_Inr_D [of c env s sid operation oh s'] by auto
  with verify_used_mono [OF v assms(2)] show ?thesis by simp
next
  case (BatchExecuteOperations sid ops hs)
  with assms(1) obtain s1 where
    "batchLoop c env s sid ops hs = Inr s1" and "usedSignatures s' = usedSignatures s1"
    by (auto simp: batchExecuteOperations_def onlyDelegate_def require_def bindE_def
             split: if_splits sum.splits)
  with batchLoop_used_mono [of c env s sid ops hs s1 h] assms(2) show ?thesis by simp
next
  case (CreateDelegationSession u d e p m)
  with assms show ?thesis
    by (auto simp: createDelegationSession_def require_def bindE_def Let_def
             split: if_splits sum.splits)
next
  case (RevokeDelegationSession sid)
  with assms show ?thesis
    by (auto simp: revokeDelegationSession_def require_def split: if_splits)
next
  case (EmergencyRevokeUserSessions u)
  with assms show ?thesis
    by (auto simp: emergencyRevokeUserSessions_def require_def split: if_splits)
next
  case (LdTransferOwnership a)
  with assms show ?thesis
    by (auto simp: ld_transferOwnership_def require_def split: if_splits)
next
  case LdRenounceOwnership
  with assms show ?thesis
    by (auto simp: ld_renounceOwnership_def require_def split: if_splits)
qed

lemma ld_transact_used_mono:
  "usedSignatures s h \<Longrightarrow> usedSignatures (ld_transact c s tx) h"
  by (cases "ld_exec c (fst tx) s (snd tx)") (auto simp: ld_transact_def dest: ld_exec_used_mono)

lemma ld_run_used_mono:
  "usedSignatures s h \<Longrightarrow> usedSignatures (ld_run c s txs) h"
  unfolding ld_run_def
  by (induction txs arbitrary: s) (simp_all add: ld_transact_used_mono)

text \<open>
  Claim C1, as the code has it. Once \<open>verifySignedOperation\<close> has returned for an
  operation, its signature is marked used, and it stays marked after any further sequence
  of transactions of the contract. Every later verification of an operation that carries
  the same signature aborts, whatever session it is addressed to and whoever calls. The
  abort is the replay error \<open>Signature already used\<close> whenever the later call gets as
  far as the used-signature check, that is, when the addressed session is valid, the
  operation's user, delegate and nonce match it and the signature library returns a
  signer; otherwise the call has already aborted with the error of the earlier check.
\<close>

theorem used_signature_rejected_forever:
  assumes "verifySignedOperation c env s sid operation = Inr (v, s1)"
    and "signature operation' = signature operation"
  shows "usedSignatures (ld_run c s1 txs) (keccak256 c (signature operation)) \<and>
         (\<exists>e. verifySignedOperation c env' (ld_run c s1 txs) sid' operation' = Inl e) \<and>
         (isSessionValid env' (ld_run c s1 txs) sid' \<and>
          op_user operation' = ds_user (delegationSessions (ld_run c s1 txs) sid') \<and>
          op_delegate operation' = ds_delegate (delegationSessions (ld_run c s1 txs) sid') \<and>
          op_nonce operation' = ds_nonce (delegationSessions (ld_run c s1 txs) sid') \<and>
          recover c (toEthSignedMessageHash c (messageHash c operation'
              (policyHash (delegationSessions (ld_run c s1 txs) sid'))))
            (signature operation') \<noteq> None
          \<longrightarrow> verifySignedOperation c env' (ld_run c s1 txs) sid' operation' =
                Inl (Revert ''Signature already used''))"
proof -
  have "usedSignatures s1 (keccak256 c (signature operation))"
    using verifySignedOperation_Inr_D(1) [OF assms(1)] by simp
  then have u: "usedSignatures (ld_run c s1 txs) (keccak256 c (signature operation))"
    by (rule ld_run_used_mono)
  then have u': "usedSignatures (ld_run c s1 txs) (keccak256 c (signature operation'))"
    using assms(2) by simp
  have r: "\<exists>e. verifySignedOperation c env' (ld_run c s1 txs) sid' operation' = Inl e"
    using verifySignedOperation_used_fails [OF u'] .
  have "verifySignedOperation c env' (ld_run c s1 txs) sid' operation' =
          Inl (Revert ''Signature already used'')"
    if "isSessionValid env' (ld_run c s1 txs) sid'"
      and "op_user operation' = ds_user (delegationSessions (ld_run c s1 txs) sid')"
      and "op_delegate operation' = ds_delegate (delegationSessions (ld_run c s1 txs) sid')"
      and "op_nonce operation' = ds_nonce (delegationSessions (ld_run c s1 txs) sid')"
      and "recover c (toEthSignedMessageHash c (messageHash c operation'
              (policyHash (delegationSessions (ld_run c s1 txs) sid'))))
            (signature operation') \<noteq> None"
    using that u'
    by (auto simp: verifySignedOperation_def validSession_def require_def Let_def
          isSessionValid_def split: option.splits)
  with u r show ?thesis by blast
qed

theorem used_signature_rejected_forever_witness:
  "verifySignedOperation ex_crypto (ex_env ex_agent 5100) ex_ld_session ex_sid0 (ex_op 0 [1, 154]) =
     Inr (True, ex_ld_verified) \<and>
   ex_sid1 \<noteq> ex_sid0 \<and>
   isSessionValid (ex_env ex_agent 5400) (ld_run ex_crypto ex_ld_verified ex_ld_second) ex_sid1 \<and>
   usedSignatures (ld_run ex_crypto ex_ld_verified ex_ld_second) (keccak256 ex_crypto [1, 154]) \<and>
   verifySignedOperation ex_crypto (ex_env ex_agent 5400)
     (ld_run ex_crypto ex_ld_verified ex_ld_second) ex_sid1 (ex_op 1 [1, 154]) =
     Inl (Revert ''Signature already used'')"
proof -
  have h: "verifySignedOperation ex_crypto (ex_env ex_agent 5100) ex_ld_session ex_sid0
      (ex_op 0 [1, 154]) = Inr (True, ex_ld_verified)"
    by (simp add: ld_defs Let_def ex_ld_defs ex_ld_verified_def)
  have g: "signature (ex_op 1 [1, 154]) = signature (ex_op 0 [1, 154])"
    by simp
  have v: "isSessionValid (ex_env ex_agent 5400) (ld_run ex_crypto ex_ld_verified ex_ld_second) ex_sid1 \<and>
      delegationSessions (ld_run ex_crypto ex_ld_verified ex_ld_second) ex_sid1 =
       \<lparr>ds_user = ex_user, ds_delegate = ex_agent, ds_nonce = 1, expiry = 90000,
        policyHash = 77, ds_isActive = True, maxOperations = 2, operationsUsed = 0\<rparr>"
    by (simp add: isSessionValid_def ex_ld_second_def ld_defs Let_def ex_ld_defs ex_ld_verified_def)
  have n: "ex_sid1 \<noteq> ex_sid0"
    by (simp add: ex_ld_defs ex_ld_verified_def)
  from used_signature_rejected_forever [OF h g, of ex_ld_second "ex_env ex_agent 5400" ex_sid1] h v n
  show ?thesis
    by (simp add: ex_crypto_fields ex_recover_def)
qed

text \<open>
  Claim C1 as the specification states it promises a replay error for every later
  verification. Here the signature was accepted in the first session and is presented
  again to a second session of the same owner that has been revoked: the call is
  rejected, but with \<open>Session not active\<close>.
\<close>

theorem replay_on_revoked_session_counterexample:
  "verifySignedOperation ex_crypto (ex_env ex_agent 5100) ex_ld_session ex_sid0 (ex_op 0 [1, 154]) =
     Inr (True, ex_ld_verified) \<and>
   verifySignedOperation ex_crypto (ex_env ex_agent 5400)
     (ld_run ex_crypto ex_ld_verified ex_ld_second_revoked) ex_sid1 (ex_op 1 [1, 154]) =
     Inl (Revert ''Session not active'')"
  by (simp add: ex_ld_second_revoked_def ex_ld_verified_def ld_defs Let_def ex_ld_defs)

text \<open>
  Claim C3, as the code has it. On a valid session with matching user, delegate and
  nonce, \<open>verifySignedOperation\<close> recovers the signer of the digest of (user, delegate,
  nonce, operation type, data, timestamp, policy hash). A malformed signature aborts the
  call; a signature that is already marked used aborts it with
  \<open>Signature already used\<close>. Otherwise the call returns, with the result true exactly
  when the signer is the session's user, and in both cases, true or false, it marks the
  signature used.
\<close>

theorem verifySignedOperation_spec:
  assumes "ds_isActive (delegationSessions s sid)"
    and "block_timestamp env \<le> expiry (delegationSessions s sid)"
    and "operationsUsed (delegationSessions s sid) < maxOperations (delegationSessions s sid)"
    and "op_user operation = ds_user (delegationSessions s sid)"
    and "op_delegate operation = ds_delegate (delegationSessions s sid)"
    and "op_nonce operation = ds_nonce (delegationSessions s sid)"
  shows "verifySignedOperation c env s sid operation =
     (case recover c (toEthSignedMessageHash c
              (messageHash c operation (policyHash (delegationSessions s sid))))
            (signature operation) of
        None \<Rightarrow> Inl LibraryError
      | Some signer \<Rightarrow>
          if usedSignatures s (keccak256 c (signature operation))
          then Inl (Revert ''Signature already used'')
          else Inr (signer = ds_user (delegationSessions s sid),
                 s\<lparr>usedSignatures := (usedSignatures s)(keccak256 c (signature operation) := True),
                   ld_events := ld_events s @
                     [SignatureVerified sid (ds_user (delegationSessions s sid))
                        (signer = ds_user (delegationSessions s sid))]\<rparr>))"
  using assms
  by (simp add: verifySignedOperation_def validSession_def require_def Let_def
           split: option.splits)

theorem verifySignedOperation_spec_witness:
  "isSessionValid (ex_env ex_agent 5100) ex_ld_session ex_sid0 \<and>
   map_sum id fst (verifySignedOperation ex_crypto (ex_env ex_agent 5100) ex_ld_session ex_sid0
     (ex_op 0 [1, 154])) = Inr True \<and>
   map_sum id fst (verifySignedOperation ex_crypto (ex_env ex_agent 5100) ex_ld_session ex_sid0
     (ex_op 0 [66, 154])) = Inr False \<and>
   verifySignedOperation ex_crypto (ex_env ex_agent 5100) ex_ld_session ex_sid0 (ex_op 0 []) =
     Inl LibraryError \<and>
   verifySignedOperation ex_crypto (ex_env ex_agent 5100) ex_ld_verified ex_sid0 (ex_op 0 [1, 154]) =
     Inl (Revert ''Signature already used'')"
proof -
  have s0: "delegationSessions ex_ld_session ex_sid0 =
     \<lparr>ds_user = ex_user, ds_delegate = ex_agent, ds_nonce = 0, expiry = 90000,
      policyHash = 77, ds_isActive = True, maxOperations = 2, operationsUsed = 0\<rparr>"
    by (simp add: ld_defs Let_def ex_ld_defs ex_ld_verified_def)
  have s1: "delegationSessions ex_ld_verified ex_sid0 = delegationSessions ex_ld_session ex_sid0"
    by (simp add: ld_defs Let_def ex_ld_defs ex_ld_verified_def)
  have u0: "usedSignatures ex_ld_session = (\<lambda>h. False)"
    by (simp add: ld_defs Let_def ex_ld_defs ex_ld_verified_def)
  have u1: "usedSignatures ex_ld_verified (keccak256 ex_crypto [1, 154])"
    by (simp add: ld_defs Let_def ex_ld_defs ex_ld_verified_def)
  have e: "block_timestamp (ex_env ex_agent 5100) = 5100"
    by simp
  show ?thesis
    using verifySignedOperation_spec [of ex_ld_session ex_sid0 "ex_env ex_agent 5100"
            "ex_op 0 [1, 154]" ex_crypto]
          verifySignedOperation_spec [of ex_ld_session ex_sid0 "ex_env ex_agent 5100"
            "ex_op 0 [66, 154]" ex_crypto]
          verifySignedOperation_spec [of ex_ld_session ex_sid0 "ex_env ex_agent 5100"
            "ex_op 0 []" ex_crypto]
          verifySignedOperation_spec [of ex_ld_verified ex_sid0 "ex_env ex_agent 5100"
            "ex_op 0 [1, 154]" ex_crypto]
          u1
    by (simp add: s0 s1 u0 e isSessionValid_def ex_crypto_fields ex_digests ex_recover_def)
qed

text \<open>
  Claim C3 as the specification states it says that only a successful verification marks
  the signature. A signature that recovers to another identity makes the call return
  false, without an abort, and the signature is marked used afterwards.
\<close>

theorem invalid_signature_marked_used_counterexample:
  "map_sum id fst (verifySignedOperation ex_crypto (ex_env ex_stranger 5100) ex_ld_session ex_sid0
     (ex_op 0 [66, 154])) = Inr False \<and>
   \<not> usedSignatures ex_ld_session (keccak256 ex_crypto [66, 154]) \<and>
   usedSignatures ex_ld_badsig (keccak256 ex_crypto [66, 154])"
  by (simp add: ex_ld_badsig_def ld_defs Let_def ex_ld_defs)

text \<open>
  Claim C10. The result and the state after \<open>verifySignedOperation\<close> do not depend on
  the caller: two calls that differ only in \<open>msg.sender\<close> return the same value, and
  whenever the call returns, the operation's signature is marked used. So any third
  party can consume a signature; in the example a stranger verifies the delegate's
  operation first and the delegate's \<open>executeOperation\<close> then fails.
\<close>

theorem verifySignedOperation_caller_independent:
  "verifySignedOperation c (env\<lparr>msg_sender := caller1\<rparr>) s sid operation =
   verifySignedOperation c (env\<lparr>msg_sender := caller2\<rparr>) s sid operation \<and>
   (\<forall>v s'. verifySignedOperation c (env\<lparr>msg_sender := caller1\<rparr>) s sid operation = Inr (v, s')
      \<longrightarrow> usedSignatures s' (keccak256 c (signature operation)))"
proof -
  have "verifySignedOperation c (env\<lparr>msg_sender := caller1\<rparr>) s sid operation =
        verifySignedOperation c (env\<lparr>msg_sender := caller2\<rparr>) s sid operation"
    by (simp add: verifySignedOperation_def validSession_def)
  moreover have "usedSignatures s' (keccak256 c (signature operation))"
    if "verifySignedOperation c (env\<lparr>msg_sender := caller1\<rparr>) s sid operation = Inr (v, s')"
    for v s'
    using verifySignedOperation_Inr_D(1) [OF that] by simp
  ultimately show ?thesis by blast
qed

theorem verifySignedOperation_caller_independent_witness:
  "ex_stranger \<noteq> ds_delegate (delegationSessions ex_ld_session ex_sid0) \<and>
   ex_stranger \<noteq> ds_user (delegationSessions ex_ld_session ex_sid0) \<and>
   verifySignedOperation ex_crypto (ex_env ex_stranger 5100) ex_ld_session ex_sid0 (ex_op 0 [1, 154]) =
   verifySignedOperation ex_crypto (ex_env ex_agent 5100) ex_ld_session ex_sid0 (ex_op 0 [1, 154]) \<and>
   verifySignedOperation ex_crypto (ex_env ex_stranger 5100) ex_ld_session ex_sid0 (ex_op 0 [1, 154]) =
     Inr (True, ex_ld_verified) \<and>
   usedSignatures ex_ld_verified (keccak256 ex_crypto (signature (ex_op 0 [1, 154]))) \<and>
   executeOperation ex_crypto (ex_env ex_agent 5101) ex_ld_verified ex_sid0 (ex_op 0 [1, 154]) 500 =
     Inl (Revert ''Signature already used'')"
proof -
  note th = verifySignedOperation_caller_independent [where c = ex_crypto
         and env = "ex_env ex_agent 5100" and ?caller1.0 = ex_stranger and ?caller2.0 = ex_agent
         and s = ex_ld_session and sid = ex_sid0 and operation = "ex_op 0 [1, 154]"]
  have h: "verifySignedOperation ex_crypto (ex_env ex_stranger 5100) ex_ld_session ex_sid0
      (ex_op 0 [1, 154]) = Inr (True, ex_ld_verified)"
    by (simp add: ld_defs Let_def ex_ld_defs ex_ld_verified_def)
  have same: "verifySignedOperation ex_crypto (ex_env ex_stranger 5100) ex_ld_session ex_sid0
      (ex_op 0 [1, 154]) =
    verifySignedOperation ex_crypto (ex_env ex_agent 5100) ex_ld_session ex_sid0 (ex_op 0 [1, 154])"
    using th by simp
  have "verifySignedOperation ex_crypto ((ex_env ex_agent 5100)\<lparr>msg_sender := ex_stranger\<rparr>)
      ex_ld_session ex_sid0 (ex_op 0 [1, 154]) = Inr (True, ex_ld_verified)"
    using h by simp
  with th have used: "usedSignatures ex_ld_verified (keccak256 ex_crypto (signature (ex_op 0 [1, 154])))"
    by blast
  have s0: "delegationSessions ex_ld_session ex_sid0 =
     \<lparr>ds_user = ex_user, ds_delegate = ex_agent, ds_nonce = 0, expiry = 90000,
      policyHash = 77, ds_isActive = True, maxOperations = 2, operationsUsed = 0\<rparr>"
    by (simp add: ld_defs Let_def ex_ld_defs)
  have x: "executeOperation ex_crypto (ex_env ex_agent 5101) ex_ld_verified ex_sid0
      (ex_op 0 [1, 154]) 500 = Inl (Revert ''Signature already used'')"
    by (simp add: ld_defs Let_def ex_ld_defs ex_ld_verified_def)
  have d: "ex_stranger \<noteq> ds_delegate (delegationSessions ex_ld_session ex_sid0) \<and>
      ex_stranger \<noteq> ds_user (delegationSessions ex_ld_session ex_sid0)"
    by (simp add: s0)
  from d same h used x show ?thesis
    by blast
qed

subsection \<open>The session nonce\<close>

text \<open>
  A successful \<open>executeOperation\<close> adds one to \<open>operationsUsed\<close> and leaves the
  session's nonce as it was.
\<close>

lemma executeOperation_keeps_nonce:
  assumes "executeOperation c env s sid operation oh = Inr s'"
  shows "ds_nonce (delegationSessions s' sid) = ds_nonce (delegationSessions s sid) \<and>
         operationsUsed (delegationSessions s' sid) = operationsUsed (delegationSessions s sid) + 1"
proof -
  from executeOperation_Inr_D [OF assms] obtain s1 where
    v: "verifySignedOperation c env s sid operation = Inr (True, s1)"
    and s': "s' = s1\<lparr>delegationSessions := (delegationSessions s1)(sid :=
                     (delegationSessions s1 sid)
                       \<lparr>operationsUsed := operationsUsed (delegationSessions s1 sid) + 1\<rparr>),
                   ld_events := ld_events s1 @
                     [OperationExecuted sid (ds_user (delegationSessions s1 sid))
                        (ds_delegate (delegationSessions s1 sid))
                        (operationType operation) oh]\<rparr>"
    by blast
  from verifySignedOperation_Inr_D(1) [OF v] have "delegationSessions s1 = delegationSessions s"
    by simp
  with s' show ?thesis by simp
qed

text \<open>
  The operations cap: once \<open>operationsUsed\<close> has reached \<open>maxOperations\<close>, the
  delegate's next \<open>executeOperation\<close> on the active, unexpired session is rejected.
\<close>

lemma executeOperation_cap:
  assumes "operationsUsed (delegationSessions s sid) = maxOperations (delegationSessions s sid)"
    and "msg_sender env = ds_delegate (delegationSessions s sid)"
    and "ds_isActive (delegationSessions s sid)"
    and "block_timestamp env \<le> expiry (delegationSessions s sid)"
  shows "executeOperation c env s sid operation oh = Inl (Revert ''Max operations exceeded'')"
  using assms
  by (simp add: executeOperation_def onlyDelegate_def verifySignedOperation_def validSession_def
        require_def bindE_def)

text \<open>
  Claim C2 at a concrete input. A session with \<open>maxOperations = 2\<close> and nonce 0
  executes a first operation with nonce 0. Afterwards the session's nonce is still 0 and
  \<open>operationsUsed\<close> is 1, and a second operation with nonce 1, signed by the owner with
  a fresh signature, is rejected with \<open>Invalid nonce\<close>.
\<close>

theorem executeOperation_second_nonce_rejected:
  "executeOperation ex_crypto (ex_env ex_agent 5100) ex_ld_session ex_sid0 (ex_op 0 [1, 154]) 500 =
     Inr ex_ld_executed \<and>
   ds_nonce (delegationSessions ex_ld_session ex_sid0) = 0 \<and>
   maxOperations (delegationSessions ex_ld_session ex_sid0) = 2 \<and>
   ds_nonce (delegationSessions ex_ld_executed ex_sid0) = 0 \<and>
   operationsUsed (delegationSessions ex_ld_executed ex_sid0) = 1 \<and>
   recover ex_crypto (toEthSignedMessageHash ex_crypto (messageHash ex_crypto (ex_op 1 [1, 155]) 77))
     (signature (ex_op 1 [1, 155])) = Some ex_user \<and>
   executeOperation ex_crypto (ex_env ex_agent 5200) ex_ld_executed ex_sid0 (ex_op 1 [1, 155]) 501 =
     Inl (Revert ''Invalid nonce'')"
  by (simp add: ex_ld_executed_def ld_defs Let_def ex_ld_defs)

section \<open>Properties of CrossChainRebalancer\<close>

lemmas rb_defs = chain_run_def chain_transact_def chain_init_def rb_init_def
  onlyAuthorizedAgent_def validAction_def rb_onlyOwner_def setAuthorizedAgent_def
  updateTokenPrice_def createRebalanceAction_def callPortfolioManager_def executeSwap_def
  executeBridge_def completeRebalanceAction_def emergencyPause_def rb_transferOwnership_def
  rb_renounceOwnership_def

lemma ex_actionId: "ex_aid = 421"
  by (simp add: actionIdOf_def ex_crypto_fields ex_keccak_def be_bytes_def upt_rec
        drop_bit_eq_div)

lemmas ex_rb_defs =
  ex_chain_setup_def ex_actionId ex_chain_policy_def ex_chain_ready_def

lemma ex_actionId_swap_only: "ex_aid_swap_only = 420"
  by (simp add: actionIdOf_def ex_crypto_fields ex_keccak_def be_bytes_def upt_rec
        drop_bit_eq_div)

subsection \<open>Swap legs\<close>

lemma executeSwap_unfold:
  assumes "authorizedAgents (rebalancer w) (msg_sender env)"
    and "action_user (rebalanceActions (rebalancer w) actionId) \<noteq> 0"
    and "\<not> executed (rebalanceActions (rebalancer w) actionId)"
    and "unat swapIndex < length (swaps (rebalanceActions (rebalancer w) actionId))"
  shows "executeSwap env w actionId swapIndex actualAmountOut =
     (let action = rebalanceActions (rebalancer w) actionId;
          swap = swaps action ! unat swapIndex;
          policy = delegationPolicies (portfolioManager w) (action_user action)
      in if actualAmountOut < minAmountOut swap then Inl (Revert ''Slippage too high'')
         else if \<not> policy_isActive policy then Inl (Revert ''Delegation not active'')
         else if rb_address w \<noteq> delegate policy then Inl (Revert ''Not authorized delegate'')
         else Inr (w\<lparr>portfolioManager := (portfolioManager w)
                      \<lparr>userBalances := (userBalances (portfolioManager w))(action_user action :=
                         (userBalances (portfolioManager w) (action_user action))
                           (tokenIn swap := 0, tokenOut swap := actualAmountOut)),
                       pm_events := pm_events (portfolioManager w) @
                         [BalanceUpdated (action_user action) (tokenIn swap) 0,
                          BalanceUpdated (action_user action) (tokenOut swap) actualAmountOut]\<rparr>,
                    rebalancer := (rebalancer w)
                      \<lparr>rb_events := rb_events (rebalancer w) @
                         [SwapExecuted actionId (tokenIn swap) (tokenOut swap) (amountIn swap)
                            actualAmountOut (swap_chainId swap)]\<rparr>\<rparr>))"
  using assms
  by (simp add: executeSwap_def onlyAuthorizedAgent_def validAction_def callPortfolioManager_def
        updateBalance_def require_def bindE_def Let_def not_less)

text \<open>
  The result of \<open>executeSwap\<close>. Take a stored action that is not yet executed, a valid
  swap-leg index and a caller that is an authorized agent. With
  \<open>actualAmountOut < minAmountOut\<close> the call fails with \<open>Slippage too high\<close> and the
  whole state, the action's \<open>executed\<close> flag and all balances included, stays as it
  was. With \<open>actualAmountOut \<ge> minAmountOut\<close> the call succeeds exactly when the
  owner's delegation policy in the PortfolioManager is active and names the rebalancer
  contract as its delegate, because the balance updates are calls of the rebalancer into
  \<open>updateBalance\<close>. A successful call sets the output-token balance to
  \<open>actualAmountOut\<close>, sets the input-token balance to zero when the two tokens differ,
  and leaves the stored actions as they were.
\<close>

theorem executeSwap_spec:
  assumes "authorizedAgents (rebalancer w) (msg_sender env)"
    and "action_user (rebalanceActions (rebalancer w) actionId) \<noteq> 0"
    and "\<not> executed (rebalanceActions (rebalancer w) actionId)"
    and "unat swapIndex < length (swaps (rebalanceActions (rebalancer w) actionId))"
    and "action = rebalanceActions (rebalancer w) actionId"
    and "swap = swaps action ! unat swapIndex"
    and "policy = delegationPolicies (portfolioManager w) (action_user action)"
  shows "(actualAmountOut < minAmountOut swap \<longrightarrow>
            executeSwap env w actionId swapIndex actualAmountOut = Inl (Revert ''Slippage too high'') \<and>
            chain_transact c w (env, ExecuteSwap actionId swapIndex actualAmountOut) = w) \<and>
         (minAmountOut swap \<le> actualAmountOut \<longrightarrow>
            ((\<exists>w'. executeSwap env w actionId swapIndex actualAmountOut = Inr w') \<longleftrightarrow>
               policy_isActive policy \<and> delegate policy = rb_address w) \<and>
            (\<forall>w'. executeSwap env w actionId swapIndex actualAmountOut = Inr w' \<longrightarrow>
               userBalances (portfolioManager w') (action_user action) (tokenOut swap) =
                 actualAmountOut \<and>
               (tokenIn swap \<noteq> tokenOut swap \<longrightarrow>
                  userBalances (portfolioManager w') (action_user action) (tokenIn swap) = 0) \<and>
               rebalanceActions (rebalancer w') = rebalanceActions (rebalancer w)))"
proof -
  note u = executeSwap_unfold [OF assms(1-4), of actualAmountOut, folded assms(5),
      unfolded Let_def, folded assms(6), folded assms(7)]
  have low: "executeSwap env w actionId swapIndex actualAmountOut = Inl (Revert ''Slippage too high'') \<and>
      chain_transact c w (env, ExecuteSwap actionId swapIndex actualAmountOut) = w"
    if "actualAmountOut < minAmountOut swap"
    using that u by (simp add: chain_transact_def)
  have ok: "(\<exists>w'. executeSwap env w actionId swapIndex actualAmountOut = Inr w') \<longleftrightarrow>
      policy_isActive policy \<and> delegate policy = rb_address w"
    if "minAmountOut swap \<le> actualAmountOut"
    using that u by (auto simp: not_less)
  have eff: "userBalances (portfolioManager w') (action_user action) (tokenOut swap) =
        actualAmountOut \<and>
      (tokenIn swap \<noteq> tokenOut swap \<longrightarrow>
         userBalances (portfolioManager w') (action_user action) (tokenIn swap) = 0) \<and>
      rebalanceActions (rebalancer w') = rebalanceActions (rebalancer w)"
    if "executeSwap env w actionId swapIndex actualAmountOut = Inr w'" for w'
    using that u by (auto split: if_splits)
  from low ok eff show ?thesis by blast
qed

theorem executeSwap_spec_example:
  "authorizedAgents (rebalancer ex_chain_bridged) (msg_sender (ex_env ex_agent 6100)) \<and>
   action_user (rebalanceActions (rebalancer ex_chain_bridged) ex_aid) = ex_user \<and>
   \<not> executed (rebalanceActions (rebalancer ex_chain_bridged) ex_aid) \<and>
   swaps (rebalanceActions (rebalancer ex_chain_bridged) ex_aid) = [ex_swap] \<and>
   userBalances (portfolioManager ex_chain_bridged) ex_user ex_tokenA = 500 \<and>
   executeSwap (ex_env ex_agent 6100) ex_chain_bridged ex_aid 0 98 =
     Inl (Revert ''Slippage too high'') \<and>
   chain_transact ex_crypto ex_chain_bridged (ex_env ex_agent 6100, ExecuteSwap ex_aid 0 98) =
     ex_chain_bridged \<and>
   map_sum id (\<lambda>w'. (userBalances (portfolioManager w') ex_user ex_tokenA,
                      userBalances (portfolioManager w') ex_user ex_tokenB))
     (executeSwap (ex_env ex_agent 6100) ex_chain_bridged ex_aid 0 99) = Inr (0, 99)"
proof -
  have a: "authorizedAgents (rebalancer ex_chain_bridged) (msg_sender (ex_env ex_agent 6100))"
    by (simp add: rb_defs pm_defs ex_rb_defs ex_chain_bridged_def Let_def)
  have act: "rebalanceActions (rebalancer ex_chain_bridged) ex_aid =
      \<lparr>action_user = ex_user, swaps = [ex_swap], bridges = [ex_bridge],
       action_totalValue = 1000, action_timestamp = 6000, executed = False\<rparr>"
    by (simp add: rb_defs pm_defs ex_rb_defs ex_chain_bridged_def Let_def)
  have pol: "delegationPolicies (portfolioManager ex_chain_bridged) ex_user =
      \<lparr>delegate = ex_rb_self, maxSlippage = 50, maxRebalanceAmount = 1000,
       rebalanceThreshold = 100, cooldownPeriod = 3600, policy_isActive = True\<rparr> \<and>
      rb_address ex_chain_bridged = ex_rb_self \<and>
      userBalances (portfolioManager ex_chain_bridged) ex_user ex_tokenA = 500"
    by (simp add: rb_defs pm_defs ex_rb_defs ex_chain_bridged_def Let_def)
  have u: "action_user (rebalanceActions (rebalancer ex_chain_bridged) ex_aid) \<noteq> 0"
    "\<not> executed (rebalanceActions (rebalancer ex_chain_bridged) ex_aid)"
    "unat (0 :: uint256) < length (swaps (rebalanceActions (rebalancer ex_chain_bridged) ex_aid))"
    by (simp_all add: act)
  note th = executeSwap_spec [OF a u refl refl refl]
  have low: "executeSwap (ex_env ex_agent 6100) ex_chain_bridged ex_aid 0 98 =
       Inl (Revert ''Slippage too high'') \<and>
     chain_transact ex_crypto ex_chain_bridged (ex_env ex_agent 6100, ExecuteSwap ex_aid 0 98) =
       ex_chain_bridged"
    using th [where actualAmountOut = 98 and c = ex_crypto]
    by (simp add: act)
  have "\<exists>w'. executeSwap (ex_env ex_agent 6100) ex_chain_bridged ex_aid 0 99 = Inr w'"
    using th [where actualAmountOut = 99 and c = ex_crypto]
    by (simp add: act pol)
  then obtain w' where w': "executeSwap (ex_env ex_agent 6100) ex_chain_bridged ex_aid 0 99 = Inr w'"
    by blast
  have "userBalances (portfolioManager w') ex_user ex_tokenB = 99 \<and>
        userBalances (portfolioManager w') ex_user ex_tokenA = 0"
    using th [where actualAmountOut = 99 and c = ex_crypto] w'
    by (simp add: act pol)
  with w' have ok: "map_sum id (\<lambda>w'. (userBalances (portfolioManager w') ex_user ex_tokenA,
                      userBalances (portfolioManager w') ex_user ex_tokenB))
     (executeSwap (ex_env ex_agent 6100) ex_chain_bridged ex_aid 0 99) = Inr (0, 99)"
    by simp
  from a low ok show ?thesis
    by (simp add: act pol)
qed

text \<open>
  So a call that meets the slippage bound is rejected by the PortfolioManager unless the
  owner's policy is active and its delegate is the rebalancer contract itself: the
  identity of the agent that sent the transaction plays no part in \<open>updateBalance\<close>.
\<close>

lemma executeSwap_policy_reverts:
  assumes "authorizedAgents (rebalancer w) (msg_sender env)"
    and "action_user (rebalanceActions (rebalancer w) actionId) \<noteq> 0"
    and "\<not> executed (rebalanceActions (rebalancer w) actionId)"
    and "unat swapIndex < length (swaps (rebalanceActions (rebalancer w) actionId))"
    and "minAmountOut (swaps (rebalanceActions (rebalancer w) actionId) ! unat swapIndex)
           \<le> actualAmountOut"
    and "policy = delegationPolicies (portfolioManager w)
           (action_user (rebalanceActions (rebalancer w) actionId))"
  shows "(\<not> policy_isActive policy \<longrightarrow>
            executeSwap env w actionId swapIndex actualAmountOut =
              Inl (Revert ''Delegation not active'')) \<and>
         (policy_isActive policy \<and> delegate policy \<noteq> rb_address w \<longrightarrow>
            executeSwap env w actionId swapIndex actualAmountOut =
              Inl (Revert ''Not authorized delegate''))"
  using assms(5,6) executeSwap_unfold [OF assms(1-4), of actualAmountOut]
  by (auto simp: Let_def not_less)

text \<open>
  Claim C8 at the input of the repository's test \<open>Should execute swap successfully\<close>.
  The agent is authorized, the stored action is open and has the swap leg at index 0, no
  delegation policy is set, and the agent reports 99.5 tokens out against a minimum of 99.
  The claim and the test expect the call to succeed; it aborts with
  \<open>Delegation not active\<close>. With the policy the PortfolioManager documents, naming
  the autopilot agent as delegate, the same call aborts with
  \<open>Not authorized delegate\<close>, although the agent's own call of
  \<open>updateBalance\<close> passes.
\<close>

theorem executeSwap_delegation_revert:
  "authorizedAgents (rebalancer ex_chain_test) ex_agent \<and>
   rebalanceActions (rebalancer ex_chain_test) ex_aid_swap_only =
     \<lparr>action_user = ex_user, swaps = [ex_swap_wei], bridges = [],
      action_totalValue = 1000000000000000000000, action_timestamp = 6000, executed = False\<rparr> \<and>
   minAmountOut ex_swap_wei < 99500000000000000000 \<and>
   \<not> policy_isActive (delegationPolicies (portfolioManager ex_chain_test) ex_user) \<and>
   executeSwap (ex_env ex_agent 6100) ex_chain_test ex_aid_swap_only 0 99500000000000000000 =
     Inl (Revert ''Delegation not active'') \<and>
   rebalanceActions (rebalancer ex_chain_agent_policy) ex_aid_swap_only =
     rebalanceActions (rebalancer ex_chain_test) ex_aid_swap_only \<and>
   delegationPolicies (portfolioManager ex_chain_agent_policy) ex_user =
     \<lparr>delegate = ex_agent, maxSlippage = 50, maxRebalanceAmount = 1000,
      rebalanceThreshold = 100, cooldownPeriod = 3600, policy_isActive = True\<rparr> \<and>
   executeSwap (ex_env ex_agent 6100) ex_chain_agent_policy ex_aid_swap_only 0
       99500000000000000000 = Inl (Revert ''Not authorized delegate'') \<and>
   \<not> isl (updateBalance (ex_env ex_agent 6100) (portfolioManager ex_chain_agent_policy) ex_user
       ex_tokenB 99500000000000000000)"
  by (simp add: rb_defs pm_defs ex_chain_setup_def ex_actionId_swap_only ex_chain_test_def
        ex_chain_agent_policy_def Let_def)

text \<open>
  The two balance updates run in order, so for a leg whose input and output token coincide
  the balance of that token ends as \<open>actualAmountOut\<close>.
\<close>

lemma executeSwap_same_token_leg:
  "swaps (rebalanceActions (rebalancer ex_chain_same_token) ex_aid) = [ex_swap_same_token] \<and>
   \<not> isl (executeSwap (ex_env ex_agent 6100) ex_chain_same_token ex_aid 0 99) \<and>
   userBalances (portfolioManager (chain_transact ex_crypto ex_chain_same_token
       (ex_env ex_agent 6100, ExecuteSwap ex_aid 0 99))) ex_user (tokenIn ex_swap_same_token) = 99"
  by (simp add: rb_defs pm_defs ex_rb_defs ex_chain_same_token_def Let_def)

subsection \<open>Action ids\<close>

text \<open>
  The action id depends only on the user, the block and the two array lengths, so a
  second creation in the same block for the same user and the same leg counts returns the
  id of the first and replaces the stored action.
\<close>

lemma createRebalanceAction_same_block:
  assumes "createRebalanceAction c env w user sw br v = Inr (a, w')"
    and "createRebalanceAction c env w' user sw' br' v' = Inr (a', w'')"
    and "length sw' = length sw" and "length br' = length br"
  shows "a' = a \<and>
         rebalanceActions (rebalancer w'') a =
           \<lparr>action_user = user, swaps = sw', bridges = br', action_totalValue = v',
            action_timestamp = block_timestamp env, executed = False\<rparr>"
  using assms
  by (auto simp: createRebalanceAction_def onlyAuthorizedAgent_def require_def Let_def
           split: if_splits)

text \<open>
  Claim C4 at a concrete input. Two \<open>createRebalanceAction\<close> calls of the same agent
  in one block, for the same user, each with one swap leg and one bridge leg, but with
  different legs and different total values: both return the same action id, and after
  the second call the stored action is the second one.
\<close>

theorem createRebalanceAction_same_id:
  "map_sum id fst (createRebalanceAction ex_crypto (ex_env ex_agent 6000) ex_chain_policy ex_user
      [ex_swap] [ex_bridge] 1000) = Inr ex_aid \<and>
   swaps (rebalanceActions (rebalancer ex_chain_ready) ex_aid) = [ex_swap] \<and>
   action_totalValue (rebalanceActions (rebalancer ex_chain_ready) ex_aid) = 1000 \<and>
   map_sum id fst (createRebalanceAction ex_crypto (ex_env ex_agent 6000) ex_chain_ready ex_user
      [ex_swap_other] [ex_bridge] 2000) = Inr ex_aid \<and>
   swaps (rebalanceActions (rebalancer ex_chain_twice) ex_aid) = [ex_swap_other] \<and>
   action_totalValue (rebalanceActions (rebalancer ex_chain_twice) ex_aid) = 2000"
  by (simp add: rb_defs pm_defs ex_rb_defs ex_chain_twice_def Let_def)

subsection \<open>Terminal actions\<close>

text \<open>
  While the \<open>executed\<close> flag of an action is set, \<open>executeSwap\<close>,
  \<open>executeBridge\<close> and \<open>completeRebalanceAction\<close> on it fail for every caller.
\<close>

lemma executed_action_rejects:
  assumes "executed (rebalanceActions (rebalancer w) actionId)"
  shows "(\<exists>e. executeSwap env w actionId i out = Inl e) \<and>
         (\<exists>e. executeBridge env w actionId i out = Inl e) \<and>
         (\<exists>e. completeRebalanceAction env w actionId = Inl e)"
  using assms
  by (simp add: executeSwap_def executeBridge_def completeRebalanceAction_def
        onlyAuthorizedAgent_def validAction_def require_def)

text \<open>
  The flag is never cleared by a call on the action itself: it survives every successful
  call other than a \<open>createRebalanceAction\<close> that derives the same id. A successful
  \<open>completeRebalanceAction\<close> sets the flag and stamps the portfolio, and every later
  completion of that action by an authorized agent is rejected.
\<close>

lemma callPortfolioManager_keeps_rebalancer:
  "callPortfolioManager env w f = Inr w' \<Longrightarrow> rebalancer w' = rebalancer w"
  by (auto simp: callPortfolioManager_def bindE_def split: sum.splits)

lemma executed_persists:
  assumes "chain_exec c env w call = Inr w'"
    and "executed (rebalanceActions (rebalancer w) a)"
    and "\<And>u sw br v. call = CreateRebalanceAction u sw br v \<Longrightarrow>
           actionIdOf c env u (length sw) (length br) \<noteq> a"
  shows "executed (rebalanceActions (rebalancer w') a)"
proof (cases call)
  case (ToPortfolioManager pc)
  with assms(1,2) show ?thesis
    by (auto simp: bindE_def split: sum.splits)
next
  case (CreateRebalanceAction u sw br v)
  with assms(3) have "actionIdOf c env u (length sw) (length br) \<noteq> a" by simp
  with CreateRebalanceAction assms(1,2) show ?thesis
    by (auto simp: createRebalanceAction_def onlyAuthorizedAgent_def require_def Let_def
          split: if_splits)
next
  case (ExecuteSwap x i out)
  with assms(1,2) show ?thesis
    by (auto simp: executeSwap_def onlyAuthorizedAgent_def validAction_def require_def
          bindE_def Let_def split: if_splits sum.splits
          dest!: callPortfolioManager_keeps_rebalancer)
next
  case (ExecuteBridge x i amt)
  with assms(1,2) show ?thesis
    by (auto simp: executeBridge_def onlyAuthorizedAgent_def validAction_def require_def
          bindE_def Let_def split: if_splits sum.splits
          dest!: callPortfolioManager_keeps_rebalancer)
next
  case (CompleteRebalanceAction x)
  with assms(1,2) show ?thesis
    by (auto simp: completeRebalanceAction_def onlyAuthorizedAgent_def validAction_def
          require_def bindE_def Let_def split: if_splits sum.splits
          dest!: callPortfolioManager_keeps_rebalancer)
next
  case (EmergencyPause x)
  with assms(1,2) show ?thesis
    by (auto simp: emergencyPause_def rb_onlyOwner_def require_def split: if_splits)
next
  case (SetAuthorizedAgent x b)
  with assms(1,2) show ?thesis
    by (auto simp: setAuthorizedAgent_def rb_onlyOwner_def require_def split: if_splits)
next
  case (UpdateTokenPrice ch t p)
  with assms(1,2) show ?thesis
    by (auto simp: updateTokenPrice_def rb_onlyOwner_def require_def split: if_splits)
next
  case (RbTransferOwnership x)
  with assms(1,2) show ?thesis
    by (auto simp: rb_transferOwnership_def rb_onlyOwner_def require_def split: if_splits)
next
  case RbRenounceOwnership
  with assms(1,2) show ?thesis
    by (auto simp: rb_renounceOwnership_def rb_onlyOwner_def require_def split: if_splits)
qed

lemma completeRebalanceAction_sets_executed:
  assumes "completeRebalanceAction env w a = Inr w'"
  shows "executed (rebalanceActions (rebalancer w') a) \<and>
         lastRebalance (portfolios (portfolioManager w')
           (action_user (rebalanceActions (rebalancer w) a))) = block_timestamp env"
  using assms
  by (auto simp: completeRebalanceAction_def onlyAuthorizedAgent_def validAction_def
        callPortfolioManager_def executeRebalance_def require_def bindE_def Let_def
        split: if_splits sum.splits)

lemma completeRebalanceAction_once:
  assumes "completeRebalanceAction env w a = Inr w'"
    and "authorizedAgents (rebalancer w') (msg_sender env')"
  shows "completeRebalanceAction env' w' a = Inl (Revert ''Action already executed'')"
proof -
  from assms(1) have "action_user (rebalanceActions (rebalancer w) a) \<noteq> 0"
    by (auto simp: completeRebalanceAction_def onlyAuthorizedAgent_def validAction_def
          require_def split: if_splits)
  moreover from assms(1) have "rebalanceActions (rebalancer w') a =
      (rebalanceActions (rebalancer w) a)\<lparr>executed := True\<rparr>"
    by (auto simp: completeRebalanceAction_def onlyAuthorizedAgent_def validAction_def
          callPortfolioManager_def require_def bindE_def Let_def
          split: if_splits sum.splits)
  ultimately show ?thesis
    using assms(2)
    by (simp add: completeRebalanceAction_def onlyAuthorizedAgent_def validAction_def require_def)
qed

text \<open>
  Claim C9 at a concrete input. An action is paused (or completed), so its
  \<open>executed\<close> flag is set and a swap leg on it is rejected with
  \<open>Action already executed\<close>. A \<open>createRebalanceAction\<close> in the same block for the
  same user and leg counts stores a new action under the same id with the flag cleared,
  and a swap leg on that id succeeds again.
\<close>

theorem executed_action_reopened:
  "executed (rebalanceActions (rebalancer ex_chain_paused) ex_aid) \<and>
   executeSwap (ex_env ex_agent 6000) ex_chain_paused ex_aid 0 30 =
     Inl (Revert ''Action already executed'') \<and>
   \<not> executed (rebalanceActions (rebalancer (chain_run ex_crypto ex_chain_paused ex_recreate))
       ex_aid) \<and>
   \<not> isl (executeSwap (ex_env ex_agent 6000) (chain_run ex_crypto ex_chain_paused ex_recreate)
       ex_aid 0 30) \<and>
   userBalances (portfolioManager (chain_run ex_crypto ex_chain_paused
       (ex_recreate @ [(ex_env ex_agent 6000, ExecuteSwap ex_aid 0 30)]))) ex_user ex_tokenA = 30 \<and>
   executed (rebalanceActions (rebalancer ex_chain_completed) ex_aid) \<and>
   lastRebalance (portfolios (portfolioManager ex_chain_completed) ex_user) = 6000 \<and>
   completeRebalanceAction (ex_env ex_agent 6000) ex_chain_completed ex_aid =
     Inl (Revert ''Action already executed'') \<and>
   \<not> executed (rebalanceActions (rebalancer (chain_run ex_crypto ex_chain_completed ex_recreate))
       ex_aid) \<and>
   \<not> isl (executeSwap (ex_env ex_agent 6000) (chain_run ex_crypto ex_chain_completed ex_recreate)
       ex_aid 0 30) \<and>
   userBalances (portfolioManager (chain_run ex_crypto ex_chain_completed
       (ex_recreate @ [(ex_env ex_agent 6000, ExecuteSwap ex_aid 0 30)]))) ex_user ex_tokenA = 30"
  by (simp add: rb_defs pm_defs ex_rb_defs ex_chain_paused_def ex_chain_completed_def
        ex_recreate_def Let_def)

end
